theory Spec2Isabelle
  imports Complex_Main
begin

section \<open>Values, exceptions and the outside world\<close>

text \<open>
  The handler of \<^verbatim>\<open>lambda/lambda_function.py\<close> works on values decoded from JSON, on
  bytes read from object storage and on the exceptions its callees raise. \<open>pyval\<close> holds
  the Python values that reach it; a dict is an association list, looked up from the left.
\<close>

type_synonym bytes = "char list"

datatype pyval =
    PNone
  | PBool bool
  | PInt int
  | PFloat real
  | PStr string
  | PBytes bytes
  | PList "pyval list"
  | PDict "(string \<times> pyval) list"

text \<open>
  Exceptions are values. Only classes derived from Python's \<open>Exception\<close> are modelled
  (what the libraries raise); the handler tells \<open>AssertionError\<close> from all the others.
\<close>

datatype exn_class =
    AssertionError
  | ValueError
  | TypeError
  | KeyError
  | IndexError
  | ClientError
  | LibraryError string

datatype exn = Exn (cls: exn_class) (msg: string)

text \<open>
  The event is the batch the queue trigger hands to the function: a list of records, each
  with the message text in \<open>body\<close>. The other fields of a record are not read.
\<close>

record sqs_record =
  body :: string

record sqs_event =
  Records :: "sqs_record list"

text \<open>What the handler prints, one constructor for each \<open>print\<close> of the source.\<close>

datatype log_line =
    LogEvent sqs_event
  | LogException exn
  | LogProcessed string pyval
  | LogResponse pyval
  | LogErrorProcessing pyval pyval exn
  | LogTraceback exn

text \<open>The calls the handler makes on the storage and notification clients.\<close>

datatype api_call =
    GetObject pyval string
  | PutObject pyval string bytes
  | GeneratePresignedUrl pyval string int
  | Publish pyval string
  | DeleteObject pyval string

text \<open>
  An effect is a printed line or a client call with its outcome: \<open>None\<close> when the call
  returned, \<open>Some e\<close> when it raised \<open>e\<close>.
\<close>

datatype effect =
    Printed log_line
  | Called api_call "exn option"

text \<open>
  The world outside the handler: the objects in storage, keyed by bucket and key, and the
  effects so far, oldest first.
\<close>

record world =
  objects :: "pyval \<times> string \<rightharpoonup> pyval"
  trace :: "effect list"

text \<open>
  The environment fixes what the handler does not decide: the two configuration values
  read with \<open>os.getenv\<close> (absent is \<open>None\<close>), the JSON codec, the imaging library and
  the behaviour of the remote services. A fault function says whether a storage call
  raises in a given world; since the world holds the effects so far, a service may fail on
  one call and not on the next.
\<close>

record 'img env =
  PROCESSED_BUCKET_NAME :: "string option"
  SNS_TOPIC_ARN :: "string option"
  json_loads :: "string \<Rightarrow> exn + pyval"
  json_dumps :: "pyval \<Rightarrow> string"
  image_open :: "bytes \<Rightarrow> exn + 'img"
  image_size :: "'img \<Rightarrow> nat \<times> nat"
  image_resize :: "'img \<Rightarrow> int \<times> int \<Rightarrow> exn + 'img"
  image_save_jpeg :: "'img \<Rightarrow> exn + bytes"
  get_object_fault :: "world \<Rightarrow> pyval \<Rightarrow> string \<Rightarrow> exn option"
  put_object_fault :: "world \<Rightarrow> pyval \<Rightarrow> string \<Rightarrow> bytes \<Rightarrow> exn option"
  delete_object_fault :: "world \<Rightarrow> pyval \<Rightarrow> string \<Rightarrow> exn option"
  presign_url :: "world \<Rightarrow> pyval \<Rightarrow> string \<Rightarrow> int \<Rightarrow> exn + string"
  sns_publish :: "world \<Rightarrow> pyval \<Rightarrow> string \<Rightarrow> exn + pyval"

section \<open>Computations that may raise and that change the world\<close>

type_synonym 'a io = "world \<Rightarrow> (exn + 'a) \<times> world"

definition return_io :: "'a \<Rightarrow> 'a io" where
  "return_io x = (\<lambda>w. (Inr x, w))"

definition raise_io :: "exn \<Rightarrow> 'a io" where
  "raise_io e = (\<lambda>w. (Inl e, w))"

definition bind_io :: "'a io \<Rightarrow> ('a \<Rightarrow> 'b io) \<Rightarrow> 'b io" where
  "bind_io m f = (\<lambda>w. case m w of (Inl e, w') \<Rightarrow> (Inl e, w') | (Inr x, w') \<Rightarrow> f x w')"

definition lift_io :: "exn + 'a \<Rightarrow> 'a io" where
  "lift_io r = (\<lambda>w. (r, w))"

definition bind_exn :: "exn + 'a \<Rightarrow> ('a \<Rightarrow> exn + 'b) \<Rightarrow> exn + 'b" where
  "bind_exn r f = (case r of Inl e \<Rightarrow> Inl e | Inr x \<Rightarrow> f x)"

definition emit :: "effect \<Rightarrow> world \<Rightarrow> world" where
  "emit x w = w\<lparr>trace := trace w @ [x]\<rparr>"

definition print_io :: "log_line \<Rightarrow> unit io" where
  "print_io l = (\<lambda>w. (Inr (), emit (Printed l) w))"

section \<open>Python's subscripts, truth and number conversions\<close>

definition squote :: "string \<Rightarrow> string" where
  "squote s = [CHR 0x27] @ s @ [CHR 0x27]"

fun type_name :: "pyval \<Rightarrow> string" where
  "type_name PNone = ''NoneType''"
| "type_name (PBool _) = ''bool''"
| "type_name (PInt _) = ''int''"
| "type_name (PFloat _) = ''float''"
| "type_name (PStr _) = ''str''"
| "type_name (PBytes _) = ''bytes''"
| "type_name (PList _) = ''list''"
| "type_name (PDict _) = ''dict''"

definition type_repr :: "pyval \<Rightarrow> string" where
  "type_repr v = ''<class '' @ squote (type_name v) @ ''>''"

definition not_subscriptable :: "pyval \<Rightarrow> exn" where
  "not_subscriptable v = Exn TypeError (squote (type_name v) @ '' object is not subscriptable'')"

text \<open>\<open>v[k]\<close> for a string \<open>k\<close>: only a dict has string keys.\<close>

fun getitem_str :: "pyval \<Rightarrow> string \<Rightarrow> exn + pyval" where
  "getitem_str (PDict kvs) k =
     (case map_of kvs k of None \<Rightarrow> Inl (Exn KeyError (squote k)) | Some v \<Rightarrow> Inr v)"
| "getitem_str (PList xs) k = Inl (Exn TypeError ''list indices must be integers or slices, not str'')"
| "getitem_str (PStr s) k = Inl (Exn TypeError ''string indices must be integers'')"
| "getitem_str (PBytes b) k = Inl (Exn TypeError ''byte indices must be integers or slices, not str'')"
| "getitem_str v k = Inl (not_subscriptable v)"

text \<open>\<open>v[0]\<close>: a dict decoded from JSON has string keys only, so \<open>0\<close> is a missing key.\<close>

fun getitem_0 :: "pyval \<Rightarrow> exn + pyval" where
  "getitem_0 (PList xs) =
     (case xs of [] \<Rightarrow> Inl (Exn IndexError ''list index out of range'') | x # _ \<Rightarrow> Inr x)"
| "getitem_0 (PDict kvs) = Inl (Exn KeyError ''0'')"
| "getitem_0 (PStr s) =
     (case s of [] \<Rightarrow> Inl (Exn IndexError ''string index out of range'') | c # _ \<Rightarrow> Inr (PStr [c]))"
| "getitem_0 (PBytes b) =
     (case b of [] \<Rightarrow> Inl (Exn IndexError ''index out of range'') | c # _ \<Rightarrow> Inr (PInt (of_char c)))"
| "getitem_0 v = Inl (not_subscriptable v)"

text \<open>The value of \<open>os.getenv\<close>: a string, or \<open>None\<close> when the variable is not set.\<close>

definition getenv_value :: "string option \<Rightarrow> pyval" where
  "getenv_value v = (case v of None \<Rightarrow> PNone | Some s \<Rightarrow> PStr s)"

text \<open>\<open>not presigned_url\<close>: \<open>None\<close> and the empty string are false.\<close>

definition falsy_url :: "string option \<Rightarrow> bool" where
  "falsy_url u = (case u of None \<Rightarrow> True | Some s \<Rightarrow> s = [])"

text \<open>
  \<open>int(x)\<close> on a float truncates towards zero. \<open>width / 2\<close> is Python's true division;
  an image side is a non-negative C \<open>int\<close>, on which the floating-point quotient is exact,
  so the quotient is taken in the reals.
\<close>

definition py_int :: "real \<Rightarrow> int" where
  "py_int x = (if 0 \<le> x then \<lfloor>x\<rfloor> else \<lceil>x\<rceil>)"

definition half_size :: "nat \<times> nat \<Rightarrow> int \<times> int" where
  "half_size sz = (case sz of (width, height) \<Rightarrow>
     (py_int (real width / 2), py_int (real height / 2)))"

section \<open>The storage and notification clients\<close>

text \<open>
  \<open>s3_client.get_object(...)['Body'].read()\<close>: raises when the service fails or the
  object is missing, else returns the stored content.
\<close>

definition get_object :: "'img env \<Rightarrow> pyval \<Rightarrow> string \<Rightarrow> pyval io" where
  "get_object env Bucket Key = (\<lambda>w.
     case get_object_fault env w Bucket Key of
       Some e \<Rightarrow> (Inl e, emit (Called (GetObject Bucket Key) (Some e)) w)
     | None \<Rightarrow>
        (case objects w (Bucket, Key) of
           None \<Rightarrow> (Inl (Exn ClientError ''NoSuchKey''),
                     emit (Called (GetObject Bucket Key) (Some (Exn ClientError ''NoSuchKey''))) w)
         | Some content \<Rightarrow> (Inr content, emit (Called (GetObject Bucket Key) None) w)))"

definition put_object :: "'img env \<Rightarrow> pyval \<Rightarrow> string \<Rightarrow> bytes \<Rightarrow> unit io" where
  "put_object env Bucket Key Body = (\<lambda>w.
     case put_object_fault env w Bucket Key Body of
       Some e \<Rightarrow> (Inl e, emit (Called (PutObject Bucket Key Body) (Some e)) w)
     | None \<Rightarrow> (Inr (), emit (Called (PutObject Bucket Key Body) None)
                  (w\<lparr>objects := (objects w)((Bucket, Key) \<mapsto> PBytes Body)\<rparr>)))"

definition delete_object :: "'img env \<Rightarrow> pyval \<Rightarrow> string \<Rightarrow> unit io" where
  "delete_object env Bucket Key = (\<lambda>w.
     case delete_object_fault env w Bucket Key of
       Some e \<Rightarrow> (Inl e, emit (Called (DeleteObject Bucket Key) (Some e)) w)
     | None \<Rightarrow> (Inr (), emit (Called (DeleteObject Bucket Key) None)
                  (w\<lparr>objects := (objects w)((Bucket, Key) := None)\<rparr>)))"

definition publish :: "'img env \<Rightarrow> pyval \<Rightarrow> string \<Rightarrow> pyval io" where
  "publish env TopicArn Message = (\<lambda>w.
     case sns_publish env w TopicArn Message of
       Inl e \<Rightarrow> (Inl e, emit (Called (Publish TopicArn Message) (Some e)) w)
     | Inr response \<Rightarrow> (Inr response, emit (Called (Publish TopicArn Message) None) w))"

section \<open>The handler\<close>

text \<open>
  \<open>generate_presigned_url(bucket_name, object_key, expiration=3600)\<close>: the expiration is
  optional and defaults to 3600. The \<open>try\<close> prints the exception and returns \<open>None\<close>.
\<close>

definition generate_presigned_url ::
  "'img env \<Rightarrow> pyval \<Rightarrow> string \<Rightarrow> int option \<Rightarrow> (string option) io" where
  "generate_presigned_url env bucket_name object_key expiration_arg = (\<lambda>w.
     let expiration = (case expiration_arg of None \<Rightarrow> 3600 | Some n \<Rightarrow> n) in
     case presign_url env w bucket_name object_key expiration of
       Inl e \<Rightarrow>
         (Inr None,
          emit (Printed (LogException e))
            (emit (Called (GeneratePresignedUrl bucket_name object_key expiration) (Some e)) w))
     | Inr response \<Rightarrow>
         (Inr (Some response),
          emit (Called (GeneratePresignedUrl bucket_name object_key expiration) None) w))"

text \<open>
  Lines 52 to 58: open the image, halve both sides, resize, save as JPEG; the value is
  \<open>buffer.getvalue()\<close>. Leaving the \<open>with\<close> block closes the opened image, which
  has no effect the handler sees.
\<close>

definition resize_image :: "'img env \<Rightarrow> bytes \<Rightarrow> exn + bytes" where
  "resize_image env s3_file_content =
     bind_exn (image_open env s3_file_content) (\<lambda>img.
     bind_exn (image_resize env img (half_size (image_size env img))) (\<lambda>resized.
     image_save_jpeg env resized))"

definition sns_message :: "string \<Rightarrow> pyval" where
  "sns_message presigned_url = PDict
     [(''default'', PStr ''Your image has been processed successfully.''),
      (''email'', PStr (''Your image has been processed and is available at the following link: ''
                        @ presigned_url))]"

text \<open>Lines 39 to 83: the body of the \<open>try\<close>.\<close>

definition try_body :: "'img env \<Rightarrow> pyval \<Rightarrow> pyval \<Rightarrow> unit io" where
  "try_body env source_bucket_name file_key =
     (case file_key of
        PStr key \<Rightarrow>
          bind_io (get_object env source_bucket_name key) (\<lambda>s3_file_content.
          (case s3_file_content of
             PBytes content \<Rightarrow>
               bind_io (lift_io (resize_image env content)) (\<lambda>buffer.
               bind_io (put_object env (getenv_value (PROCESSED_BUCKET_NAME env))
                          (''processed-'' @ key) buffer) (\<lambda>_.
               bind_io (generate_presigned_url env (getenv_value (PROCESSED_BUCKET_NAME env))
                          (''processed-'' @ key) None) (\<lambda>presigned_url.
               if falsy_url presigned_url
               then raise_io (Exn ValueError ''Failed to generate a presigned URL.'')
               else
                 bind_io (publish env (getenv_value (SNS_TOPIC_ARN env))
                            (json_dumps env (sns_message (the presigned_url)))) (\<lambda>sns_response.
                 bind_io (delete_object env source_bucket_name key) (\<lambda>_.
                 bind_io (print_io (LogProcessed key source_bucket_name)) (\<lambda>_.
                 print_io (LogResponse sns_response)))))))
           | _ \<Rightarrow> raise_io (Exn TypeError (''Expected s3_file_content to be bytes, got ''
                            @ type_repr s3_file_content @ '' instead.''))))
      | _ \<Rightarrow> raise_io (Exn ValueError (''file_key must be a string, got ''
                            @ type_repr file_key @ '' instead.'')))"

text \<open>Lines 30 to 33: decode the body and read the bucket name and the key.\<close>

definition envelope :: "'img env \<Rightarrow> sqs_record \<Rightarrow> exn + pyval \<times> pyval" where
  "envelope env recd =
     bind_exn (json_loads env (body recd)) (\<lambda>message_body.
     bind_exn (getitem_str message_body ''Records'') (\<lambda>records.
     bind_exn (getitem_0 records) (\<lambda>first.
     bind_exn (getitem_str first ''s3'') (\<lambda>s3_info.
     bind_exn (getitem_str s3_info ''bucket'') (\<lambda>bucket.
     bind_exn (getitem_str bucket ''name'') (\<lambda>source_bucket_name.
     bind_exn (getitem_str s3_info ''object'') (\<lambda>obj.
     bind_exn (getitem_str obj ''key'') (\<lambda>file_key.
     Inr (source_bucket_name, file_key)))))))))"

definition guard_message :: string where
  "guard_message = ''Source and destination buckets must be different to avoid recursion.''"

text \<open>Lines 85 to 91: the two \<open>except\<close> clauses, the first one that matches wins.\<close>

definition except_clauses :: "pyval \<Rightarrow> pyval \<Rightarrow> exn \<Rightarrow> unit io" where
  "except_clauses source_bucket_name file_key e =
     (if cls e = AssertionError then print_io (LogException e)
      else bind_io (print_io (LogErrorProcessing file_key source_bucket_name e)) (\<lambda>_.
           print_io (LogTraceback e)))"

text \<open>
  Lines 30 to 91: one turn of the loop. The envelope is read and the \<open>assert\<close> of line 36
  is evaluated before the \<open>try\<close> is entered, so what they raise leaves the loop.
  Assertions are enabled (the interpreter does not run with \<open>-O\<close>). The \<open>continue\<close> of
  line 91 ends a turn that is over anyway.
\<close>

definition loop_body :: "'img env \<Rightarrow> sqs_record \<Rightarrow> unit io" where
  "loop_body env recd = (\<lambda>w.
     case envelope env recd of
       Inl e \<Rightarrow> (Inl e, w)
     | Inr (source_bucket_name, file_key) \<Rightarrow>
         if \<not> (getenv_value (PROCESSED_BUCKET_NAME env) \<noteq> source_bucket_name)
         then (Inl (Exn AssertionError guard_message), w)
         else
           (case try_body env source_bucket_name file_key w of
              (Inr u, w') \<Rightarrow> (Inr u, w')
            | (Inl e, w') \<Rightarrow> except_clauses source_bucket_name file_key e w'))"

fun for_records :: "'img env \<Rightarrow> sqs_record list \<Rightarrow> unit io" where
  "for_records env [] w = (Inr (), w)"
| "for_records env (recd # rest) w =
     (case loop_body env recd w of
        (Inl e, w') \<Rightarrow> (Inl e, w')
      | (Inr _, w') \<Rightarrow> for_records env rest w')"

definition acknowledgment :: "'img env \<Rightarrow> pyval" where
  "acknowledgment env = PDict
     [(''statusCode'', PInt 200),
      (''body'', PStr (json_dumps env (PStr ''Image processing completed for all valid records.'')))]"

text \<open>\<open>lambda_handler(event, context)\<close>; the context is not used.\<close>

definition lambda_handler :: "'img env \<Rightarrow> sqs_event \<Rightarrow> pyval io" where
  "lambda_handler env event =
     bind_io (print_io (LogEvent event)) (\<lambda>_.
     bind_io (for_records env (Records event)) (\<lambda>_.
     return_io (acknowledgment env)))"

section \<open>Observing a run\<close>

text \<open>The effects added between two worlds of one run.\<close>

definition effects_since :: "world \<Rightarrow> world \<Rightarrow> effect list" where
  "effects_since w w' = drop (length (trace w)) (trace w')"

fun is_stored :: "effect \<Rightarrow> bool" where
  "is_stored (Called (PutObject _ _ _) None) = True"
| "is_stored _ = False"

fun is_publish_call :: "effect \<Rightarrow> bool" where
  "is_publish_call (Called (Publish _ _) _) = True"
| "is_publish_call _ = False"

fun is_delete_call :: "effect \<Rightarrow> bool" where
  "is_delete_call (Called (DeleteObject _ _) _) = True"
| "is_delete_call _ = False"

definition stored_count :: "effect list \<Rightarrow> nat" where
  "stored_count es = length (filter is_stored es)"

definition publish_count :: "effect list \<Rightarrow> nat" where
  "publish_count es = length (filter is_publish_call es)"

text \<open>
  Every record of the list is read, passes the \<open>assert\<close> and runs its \<open>try\<close> to the end;
  the value is the world after the last one.
\<close>

fun all_succeed :: "'img env \<Rightarrow> sqs_record list \<Rightarrow> world \<Rightarrow> world option" where
  "all_succeed env [] w = Some w"
| "all_succeed env (recd # rest) w =
     (case envelope env recd of
        Inl e \<Rightarrow> None
      | Inr (source_bucket_name, file_key) \<Rightarrow>
          if getenv_value (PROCESSED_BUCKET_NAME env) = source_bucket_name then None
          else (case try_body env source_bucket_name file_key w of
                  (Inl e, w') \<Rightarrow> None
                | (Inr u, w') \<Rightarrow> all_succeed env rest w'))"

text \<open>
  What it means for a decoded body to have a field such as \<open>Records[0].s3.bucket.name\<close>:
  a path of dict keys and first elements leads from the value to the field. A key is
  found in a dict only and a first element in a non-empty list only.
\<close>

datatype step = Field string | First

fun field_at :: "pyval \<Rightarrow> step list \<Rightarrow> pyval option" where
  "field_at v [] = Some v"
| "field_at (PDict kvs) (Field k # path) =
     (case map_of kvs k of None \<Rightarrow> None | Some x \<Rightarrow> field_at x path)"
| "field_at (PList (x # xs)) (First # path) = field_at x path"
| "field_at v (s # path) = None"

definition bucket_name_path :: "step list" where
  "bucket_name_path = [Field ''Records'', First, Field ''s3'', Field ''bucket'', Field ''name'']"

definition object_key_path :: "step list" where
  "object_key_path = [Field ''Records'', First, Field ''s3'', Field ''object'', Field ''key'']"

section \<open>A small environment to run the handler in\<close>

text \<open>
  The body of a queue message for the creation of one object, as text and as the value
  \<open>json.loads\<close> gives for it.
\<close>

definition s3_notification :: "string \<Rightarrow> string \<Rightarrow> string" where
  \<open>s3_notification b k =
     ''{"Records": [{"s3": {"bucket": {"name": "'' @ b @ ''"}, "object": {"key": "'' @ k @ ''"}}}]}''\<close>

definition s3_notification_value :: "string \<Rightarrow> string \<Rightarrow> pyval" where
  "s3_notification_value b k =
     PDict [(''Records'', PList [PDict [(''s3'',
       PDict [(''bucket'', PDict [(''name'', PStr b)]),
              (''object'', PDict [(''key'', PStr k)])])]])]"

text \<open>
  The message the storage service puts on the queue when the notification is set up: it
  is JSON and has no \<open>Records\<close>.
\<close>

definition test_event_text :: string where
  \<open>test_event_text = ''{"Service": "Amazon S3", "Event": "s3:TestEvent"}''\<close>

definition test_event_value :: pyval where
  "test_event_value = PDict [(''Service'', PStr ''Amazon S3''), (''Event'', PStr ''s3:TestEvent'')]"

definition example_loads :: "string \<Rightarrow> exn + pyval" where
  "example_loads s =
     (if s = s3_notification ''raw'' ''cat.jpg''
      then Inr (s3_notification_value ''raw'' ''cat.jpg'')
      else if s = s3_notification ''raw'' ''dog.jpg''
      then Inr (s3_notification_value ''raw'' ''dog.jpg'')
      else if s = s3_notification ''raw'' ''owl.jpg''
      then Inr (s3_notification_value ''raw'' ''owl.jpg'')
      else if s = s3_notification ''resized'' ''processed-cat.jpg''
      then Inr (s3_notification_value ''resized'' ''processed-cat.jpg'')
      else if s = test_event_text
      then Inr test_event_value
      else Inl (Exn (LibraryError ''JSONDecodeError'') ''Expecting value: line 1 column 1 (char 0)''))"

definition dquote :: "string \<Rightarrow> string" where
  "dquote s = [CHR 0x22] @ s @ [CHR 0x22]"

definition example_dumps :: "pyval \<Rightarrow> string" where
  "example_dumps v =
     (case v of
        PStr s \<Rightarrow> dquote s
      | PDict [(k1, PStr v1), (k2, PStr v2)] \<Rightarrow>
          ''{'' @ dquote k1 @ '': '' @ dquote v1 @ '', '' @ dquote k2 @ '': '' @ dquote v2 @ ''}''
      | _ \<Rightarrow> ''null'')"

text \<open>
  A toy imaging library: an image is its size, a payload of \<open>n\<close> bytes decodes to an
  image of \<open>n\<close> by 2 pixels, and a side of 0 pixels is refused.
\<close>

definition example_env :: "(nat \<times> nat) env" where
  "example_env = \<lparr>
     PROCESSED_BUCKET_NAME = Some ''resized'',
     SNS_TOPIC_ARN = Some ''arn:aws:sns:us-east-1:000000000000:ImageResizeTopic'',
     json_loads = example_loads,
     json_dumps = example_dumps,
     image_open = (\<lambda>b. if b = []
        then Inl (Exn (LibraryError ''UnidentifiedImageError'') ''cannot identify image file'')
        else Inr (length b, 2)),
     image_size = (\<lambda>img. img),
     image_resize = (\<lambda>img sz. if fst sz < 1 \<or> snd sz < 1
        then Inl (Exn ValueError ''height and width must be > 0'')
        else Inr (nat (fst sz), nat (snd sz))),
     image_save_jpeg = (\<lambda>img. Inr (replicate (fst img * snd img) CHR ''x'')),
     get_object_fault = (\<lambda>w b k. None),
     put_object_fault = (\<lambda>w b k c. None),
     delete_object_fault = (\<lambda>w b k. None),
     presign_url = (\<lambda>w b k n. Inr (''https://resized.s3.amazonaws.com/'' @ k)),
     sns_publish = (\<lambda>w t m. Inr (PDict [(''MessageId'', PStr ''1'')]))
   \<rparr>"

definition example_world :: world where
  "example_world = \<lparr>
     objects = [(PStr ''raw'', ''cat.jpg'') \<mapsto> PBytes ''abcd'',
                (PStr ''raw'', ''dog.jpg'') \<mapsto> PBytes ''abcdef''],
     trace = [] \<rparr>"

definition service_down :: exn where
  "service_down = Exn ClientError ''ServiceUnavailable''"

text \<open>
  Messages, worlds and environments used to run the handler on concrete batches: the
  message for one object, the world after the example environment has processed the
  object of key \<open>k\<close> into \<open>out\<close>, and three environments in which one service fails.
\<close>

definition notify :: "string \<Rightarrow> string \<Rightarrow> sqs_record" where
  "notify b k = \<lparr>body = s3_notification b k\<rparr>"

definition processed :: "string \<Rightarrow> bytes \<Rightarrow> world \<Rightarrow> world" where
  "processed k out w = w\<lparr>
     objects := (objects w)((PStr ''resized'', ''processed-'' @ k) \<mapsto> PBytes out,
                            (PStr ''raw'', k) := None),
     trace := trace w @
       [Called (GetObject (PStr ''raw'') k) None,
        Called (PutObject (PStr ''resized'') (''processed-'' @ k) out) None,
        Called (GeneratePresignedUrl (PStr ''resized'') (''processed-'' @ k) 3600) None,
        Called (Publish (PStr ''arn:aws:sns:us-east-1:000000000000:ImageResizeTopic'')
           (example_dumps (sns_message (''https://resized.s3.amazonaws.com/processed-'' @ k)))) None,
        Called (DeleteObject (PStr ''raw'') k) None,
        Printed (LogProcessed k (PStr ''raw'')),
        Printed (LogResponse (PDict [(''MessageId'', PStr ''1'')]))]\<rparr>"

definition failing_codec_env :: "(nat \<times> nat) env" where
  "failing_codec_env = example_env\<lparr>image_open := (\<lambda>b. Inl (Exn AssertionError []))\<rparr>"

definition failing_publish_env :: "(nat \<times> nat) env" where
  "failing_publish_env = example_env\<lparr>sns_publish := (\<lambda>w t m. Inl service_down)\<rparr>"

definition failing_presign_env :: "(nat \<times> nat) env" where
  "failing_presign_env = example_env\<lparr>presign_url := (\<lambda>w b k n. Inl service_down)\<rparr>"

definition guard_event :: sqs_event where
  "guard_event = \<lparr>Records = [notify ''resized'' ''processed-cat.jpg'', notify ''raw'' ''cat.jpg'']\<rparr>"

definition bad_envelope_event :: sqs_event where
  "bad_envelope_event =
     \<lparr>Records = [notify ''raw'' ''cat.jpg'', \<lparr>body = ''not json''\<rparr>, notify ''raw'' ''dog.jpg'']\<rparr>"

definition one_failure_event :: sqs_event where
  "one_failure_event =
     \<lparr>Records = [notify ''raw'' ''cat.jpg'', notify ''raw'' ''owl.jpg'', notify ''raw'' ''dog.jpg'']\<rparr>"

definition single_event :: sqs_event where
  "single_event = \<lparr>Records = [notify ''raw'' ''cat.jpg'']\<rparr>"

definition test_event_batch :: sqs_event where
  "test_event_batch =
     \<lparr>Records = [notify ''raw'' ''cat.jpg'', \<lparr>body = test_event_text\<rparr>, notify ''raw'' ''dog.jpg'']\<rparr>"

text \<open>A world whose source bucket holds one payload that decodes to an image one pixel wide.\<close>

definition pixel_world :: world where
  "pixel_world = \<lparr>objects = [(PStr ''raw'', ''dot.jpg'') \<mapsto> PBytes ''a''], trace = []\<rparr>"

definition no_such_key :: exn where
  "no_such_key = Exn ClientError ''NoSuchKey''"

section \<open>Basic facts\<close>

lemmas io_defs = return_io_def raise_io_def bind_io_def lift_io_def print_io_def

lemmas client_defs = get_object_def put_object_def delete_object_def publish_def
  generate_presigned_url_def emit_def falsy_url_def

lemma trace_emit: "trace (emit x w) = trace w @ [x]"
  by (simp add: emit_def)

lemma objects_emit: "objects (emit x w) = objects w"
  by (simp add: emit_def)

lemma effects_since_append: "trace w' = trace w @ es \<Longrightarrow> effects_since w w' = es"
  by (simp add: effects_since_def)

lemma stored_count_append: "stored_count (xs @ ys) = stored_count xs + stored_count ys"
  by (simp add: stored_count_def)

lemma publish_count_append: "publish_count (xs @ ys) = publish_count xs + publish_count ys"
  by (simp add: publish_count_def)

lemma for_records_append:
  "for_records env (xs @ ys) w =
     (case for_records env xs w of
        (Inl e, w') \<Rightarrow> (Inl e, w')
      | (Inr _, w') \<Rightarrow> for_records env ys w')"
  by (induction xs arbitrary: w) (auto split: prod.splits sum.splits)

lemma py_int_half: "py_int (real n / 2) = int (n div 2)"
proof -
  have "\<lfloor>real n / real (2::nat)\<rfloor> = int (n div 2)"
    by (rule floor_divide_of_nat_eq)
  then show ?thesis by (simp add: py_int_def)
qed

lemma half_size_div: "half_size (w, h) = (int (w div 2), int (h div 2))"
  by (simp add: half_size_def py_int_half)

section \<open>What a client call leaves behind\<close>

lemma get_object_result:
  "get_object env b k w = (r, w') \<Longrightarrow>
     (\<exists>e. r = Inl e \<and> w' = emit (Called (GetObject b k) (Some e)) w) \<or>
     (\<exists>c. r = Inr c \<and> w' = emit (Called (GetObject b k) None) w \<and> objects w (b, k) = Some c)"
  by (auto simp: get_object_def split: option.splits)

lemma get_object_cases:
  assumes "get_object env b k w = (r, w')"
  obtains e where "r = Inl e" "w' = emit (Called (GetObject b k) (Some e)) w"
  | c where "r = Inr c" "w' = emit (Called (GetObject b k) None) w" "objects w (b, k) = Some c"
  using get_object_result[OF assms] by blast

lemma put_object_result:
  "put_object env b k c w = (r, w') \<Longrightarrow>
     (\<exists>e. r = Inl e \<and> w' = emit (Called (PutObject b k c) (Some e)) w) \<or>
     (r = Inr () \<and> w' = emit (Called (PutObject b k c) None)
                            (w\<lparr>objects := (objects w)((b, k) \<mapsto> PBytes c)\<rparr>))"
  by (auto simp: put_object_def split: option.splits)

lemma put_object_cases:
  assumes "put_object env b k c w = (r, w')"
  obtains e where "r = Inl e" "w' = emit (Called (PutObject b k c) (Some e)) w"
  | "r = Inr ()" "w' = emit (Called (PutObject b k c) None) (w\<lparr>objects := (objects w)((b, k) \<mapsto> PBytes c)\<rparr>)"
  using put_object_result[OF assms] by blast

lemma delete_object_result:
  "delete_object env b k w = (r, w') \<Longrightarrow>
     (\<exists>e. r = Inl e \<and> w' = emit (Called (DeleteObject b k) (Some e)) w) \<or>
     (r = Inr () \<and> w' = emit (Called (DeleteObject b k) None)
                            (w\<lparr>objects := (objects w)((b, k) := None)\<rparr>))"
  by (auto simp: delete_object_def split: option.splits)

lemma delete_object_cases:
  assumes "delete_object env b k w = (r, w')"
  obtains e where "r = Inl e" "w' = emit (Called (DeleteObject b k) (Some e)) w"
  | "r = Inr ()" "w' = emit (Called (DeleteObject b k) None) (w\<lparr>objects := (objects w)((b, k) := None)\<rparr>)"
  using delete_object_result[OF assms] by blast

lemma publish_result:
  "publish env t m w = (r, w') \<Longrightarrow>
     (\<exists>e. r = Inl e \<and> w' = emit (Called (Publish t m) (Some e)) w) \<or>
     (\<exists>x. r = Inr x \<and> w' = emit (Called (Publish t m) None) w)"
proof (cases "sns_publish env w t m")
  case (Inl e)
  assume "publish env t m w = (r, w')"
  with Inl have "r = Inl e \<and> w' = emit (Called (Publish t m) (Some e)) w"
    by (simp add: publish_def)
  then show ?thesis by blast
next
  case (Inr x)
  assume "publish env t m w = (r, w')"
  with Inr have "r = Inr x \<and> w' = emit (Called (Publish t m) None) w"
    by (simp add: publish_def)
  then show ?thesis by blast
qed

lemma publish_cases:
  assumes "publish env t m w = (r, w')"
  obtains e where "r = Inl e" "w' = emit (Called (Publish t m) (Some e)) w"
  | x where "r = Inr x" "w' = emit (Called (Publish t m) None) w"
  using publish_result[OF assms] by blast

lemma generate_presigned_url_result:
  "generate_presigned_url env b k None w = (r, w') \<Longrightarrow>
     (\<exists>e. r = Inr None \<and>
          w' = emit (Printed (LogException e)) (emit (Called (GeneratePresignedUrl b k 3600) (Some e)) w)) \<or>
     (\<exists>url. r = Inr (Some url) \<and> w' = emit (Called (GeneratePresignedUrl b k 3600) None) w)"
  by (auto simp: generate_presigned_url_def split: sum.splits)

lemma generate_presigned_url_cases:
  assumes "generate_presigned_url env b k None w = (r, w')"
  obtains e where "r = Inr None"
      "w' = emit (Printed (LogException e)) (emit (Called (GeneratePresignedUrl b k 3600) (Some e)) w)"
  | url where "r = Inr (Some url)" "w' = emit (Called (GeneratePresignedUrl b k 3600) None) w"
  using generate_presigned_url_result[OF assms] by blast

section \<open>The steps of one record\<close>

text \<open>Where the body of the \<open>try\<close> stops, step by step.\<close>

lemma try_body_not_str:
  "\<forall>key. file_key \<noteq> PStr key \<Longrightarrow> \<exists>e. try_body env b file_key w = (Inl e, w)"
  by (cases file_key) (auto simp: try_body_def io_defs)


lemma try_body_not_bytes:
  "get_object env b key w = (Inr c, w1) \<Longrightarrow> \<forall>content. c \<noteq> PBytes content \<Longrightarrow>
     \<exists>e. try_body env b (PStr key) w = (Inl e, w1)"
  by (cases c) (auto simp: try_body_def io_defs)

lemma try_body_resize_raises:
  "get_object env b key w = (Inr (PBytes content), w1) \<Longrightarrow> resize_image env content = Inl e \<Longrightarrow>
     try_body env b (PStr key) w = (Inl e, w1)"
  by (simp add: try_body_def io_defs)

lemma try_body_put_raises:
  "get_object env b key w = (Inr (PBytes content), w1) \<Longrightarrow> resize_image env content = Inr buffer \<Longrightarrow>
   put_object env (getenv_value (PROCESSED_BUCKET_NAME env)) (''processed-'' @ key) buffer w1 = (Inl e, w2) \<Longrightarrow>
     try_body env b (PStr key) w = (Inl e, w2)"
  by (simp add: try_body_def io_defs)

lemma try_body_no_url:
  "get_object env b key w = (Inr (PBytes content), w1) \<Longrightarrow> resize_image env content = Inr buffer \<Longrightarrow>
   put_object env (getenv_value (PROCESSED_BUCKET_NAME env)) (''processed-'' @ key) buffer w1 = (Inr (), w2) \<Longrightarrow>
   generate_presigned_url env (getenv_value (PROCESSED_BUCKET_NAME env)) (''processed-'' @ key) None w2
      = (Inr presigned_url, w3) \<Longrightarrow>
   falsy_url presigned_url \<Longrightarrow>
     try_body env b (PStr key) w = (Inl (Exn ValueError ''Failed to generate a presigned URL.''), w3)"
  by (simp add: try_body_def io_defs)

lemma try_body_publish_raises:
  "get_object env b key w = (Inr (PBytes content), w1) \<Longrightarrow> resize_image env content = Inr buffer \<Longrightarrow>
   put_object env (getenv_value (PROCESSED_BUCKET_NAME env)) (''processed-'' @ key) buffer w1 = (Inr (), w2) \<Longrightarrow>
   generate_presigned_url env (getenv_value (PROCESSED_BUCKET_NAME env)) (''processed-'' @ key) None w2
      = (Inr (Some url), w3) \<Longrightarrow>
   url \<noteq> [] \<Longrightarrow>
   publish env (getenv_value (SNS_TOPIC_ARN env)) (json_dumps env (sns_message url)) w3 = (Inl e, w4) \<Longrightarrow>
     try_body env b (PStr key) w = (Inl e, w4)"
  by (simp add: try_body_def io_defs falsy_url_def)

lemma try_body_delete:
  "get_object env b key w = (Inr (PBytes content), w1) \<Longrightarrow> resize_image env content = Inr buffer \<Longrightarrow>
   put_object env (getenv_value (PROCESSED_BUCKET_NAME env)) (''processed-'' @ key) buffer w1 = (Inr (), w2) \<Longrightarrow>
   generate_presigned_url env (getenv_value (PROCESSED_BUCKET_NAME env)) (''processed-'' @ key) None w2
      = (Inr (Some url), w3) \<Longrightarrow>
   url \<noteq> [] \<Longrightarrow>
   publish env (getenv_value (SNS_TOPIC_ARN env)) (json_dumps env (sns_message url)) w3 = (Inr response, w4) \<Longrightarrow>
   delete_object env b key w4 = (r, w5) \<Longrightarrow>
     try_body env b (PStr key) w =
       (case r of Inl e \<Rightarrow> (Inl e, w5)
        | Inr _ \<Rightarrow> (Inr (), emit (Printed (LogResponse response)) (emit (Printed (LogProcessed key b)) w5)))"
  by (simp add: try_body_def io_defs falsy_url_def split: sum.splits)

text \<open>A run that reaches the end made every call once, in the order of the source.\<close>

lemma try_body_success:
  assumes "try_body env b file_key w = (Inr u, w')"
  shows "\<exists>key content buffer url response.
     file_key = PStr key \<and> url \<noteq> [] \<and>
     objects w (b, key) = Some (PBytes content) \<and>
     resize_image env content = Inr buffer \<and>
     trace w' = trace w @
       [Called (GetObject b key) None,
        Called (PutObject (getenv_value (PROCESSED_BUCKET_NAME env)) (''processed-'' @ key) buffer) None,
        Called (GeneratePresignedUrl (getenv_value (PROCESSED_BUCKET_NAME env)) (''processed-'' @ key) 3600) None,
        Called (Publish (getenv_value (SNS_TOPIC_ARN env)) (json_dumps env (sns_message url))) None,
        Called (DeleteObject b key) None,
        Printed (LogProcessed key b),
        Printed (LogResponse response)] \<and>
     objects w' = (objects w)
        ((getenv_value (PROCESSED_BUCKET_NAME env), ''processed-'' @ key) \<mapsto> PBytes buffer,
         (b, key) := None)"
proof -
  from assms obtain key where fk: "file_key = PStr key"
    by (cases file_key) (auto simp: try_body_def io_defs)
  obtain r1 w1 where g: "get_object env b key w = (r1, w1)" by force
  from assms fk g obtain content where r1: "r1 = Inr (PBytes content)"
    by (cases r1; cases "projr r1") (auto simp: try_body_def io_defs)
  from g r1 have w1: "w1 = emit (Called (GetObject b key) None) w" and o: "objects w (b, key) = Some (PBytes content)"
    by (auto elim: get_object_cases)
  from assms fk g r1 obtain buffer where rz: "resize_image env content = Inr buffer"
    by (cases "resize_image env content") (auto simp: try_body_def io_defs)
  let ?dst = "getenv_value (PROCESSED_BUCKET_NAME env)"
  let ?pk = "''processed-'' @ key"
  obtain r2 w2 where p: "put_object env ?dst ?pk buffer w1 = (r2, w2)" by force
  from assms fk g r1 rz p have r2: "r2 = Inr ()"
    by (cases r2) (auto simp: try_body_def io_defs)
  from p r2 have w2: "w2 = emit (Called (PutObject ?dst ?pk buffer) None) (w1\<lparr>objects := (objects w1)((?dst, ?pk) \<mapsto> PBytes buffer)\<rparr>)"
    by (auto elim: put_object_cases)
  obtain r3 w3 where s: "generate_presigned_url env ?dst ?pk None w2 = (r3, w3)" by force
  from s obtain pu where r3: "r3 = Inr pu"
    by (auto elim: generate_presigned_url_cases)
  from assms fk g r1 rz p r2 s r3 have nf: "\<not> falsy_url pu"
    by (auto simp: try_body_def io_defs split: if_splits)
  then obtain url where pu: "pu = Some url" and url: "url \<noteq> []"
    by (auto simp: falsy_url_def split: option.splits)
  from s r3 pu have w3: "w3 = emit (Called (GeneratePresignedUrl ?dst ?pk 3600) None) w2"
    by (auto elim: generate_presigned_url_cases)
  let ?t = "getenv_value (SNS_TOPIC_ARN env)"
  let ?m = "json_dumps env (sns_message url)"
  obtain r4 w4 where pb: "publish env ?t ?m w3 = (r4, w4)" by force
  from assms fk g r1 rz p r2 s r3 pu url pb obtain response where r4: "r4 = Inr response"
    by (cases r4) (auto simp: try_body_def io_defs falsy_url_def)
  from pb r4 have w4: "w4 = emit (Called (Publish ?t ?m) None) w3"
    by (auto elim: publish_cases)
  obtain r5 w5 where d: "delete_object env b key w4 = (r5, w5)" by force
  have tb: "try_body env b (PStr key) w =
       (case r5 of Inl e \<Rightarrow> (Inl e, w5)
        | Inr _ \<Rightarrow> (Inr (), emit (Printed (LogResponse response)) (emit (Printed (LogProcessed key b)) w5)))"
    using g[unfolded r1] rz p[unfolded r2] s[unfolded r3 pu] url pb[unfolded r4] d
    by (rule try_body_delete)
  from tb assms fk have r5: "r5 = Inr ()" and w': "w' = emit (Printed (LogResponse response)) (emit (Printed (LogProcessed key b)) w5)"
    by (cases r5; simp)+
  from d r5 have w5: "w5 = emit (Called (DeleteObject b key) None) (w4\<lparr>objects := (objects w4)((b, key) := None)\<rparr>)"
    by (auto elim: delete_object_cases)
  show ?thesis
    apply (rule exI[of _ key], rule exI[of _ content], rule exI[of _ buffer], rule exI[of _ url], rule exI[of _ response])
    apply (simp add: fk url o rz w' w5 w4 w3 w2 w1 emit_def)
    done
qed

lemma try_body_extends:
  assumes "try_body env b fk w = (r, w')"
  shows "\<exists>es. trace w' = trace w @ es"
  using assms
  by (auto simp: try_body_def io_defs client_defs
      split: pyval.splits sum.splits option.splits if_splits prod.splits)

lemma try_body_presign_3600:
  assumes "try_body env b fk w = (r, w')"
  shows "\<forall>bk k n out. Called (GeneratePresignedUrl bk k n) out \<in> set (effects_since w w') \<longrightarrow> n = 3600"
  using assms
  by (auto simp: try_body_def io_defs client_defs effects_since_def
      split: pyval.splits sum.splits option.splits if_splits prod.splits)

lemma try_body_failure_counts:
  assumes "try_body env b fk w = (Inl e, w')"
  shows "stored_count (effects_since w w') \<le> 1 \<and>
         publish_count (effects_since w w') \<le> stored_count (effects_since w w')"
  using assms
  by (auto simp: try_body_def io_defs client_defs effects_since_def stored_count_def publish_count_def
      split: pyval.splits sum.splits option.splits if_splits prod.splits)

lemma try_body_success_counts:
  assumes "try_body env b fk w = (Inr u, w')"
  shows "stored_count (effects_since w w') = 1 \<and> publish_count (effects_since w w') = 1"
proof -
  from try_body_success[OF assms] obtain es where
    "trace w' = trace w @ es" "stored_count es = 1" "publish_count es = 1"
    by (auto simp: stored_count_def publish_count_def)
  then show ?thesis by (simp add: effects_since_append)
qed

section \<open>One turn of the loop, and the loop\<close>

lemma except_clauses_result:
  "except_clauses b fk e w =
     (Inr (), w\<lparr>trace := trace w @
        (if cls e = AssertionError then [Printed (LogException e)]
         else [Printed (LogErrorProcessing fk b e), Printed (LogTraceback e)])\<rparr>)"
  by (simp add: except_clauses_def io_defs emit_def)

lemma loop_body_caught:
  assumes "envelope env recd = Inr (b, fk)"
      and "getenv_value (PROCESSED_BUCKET_NAME env) \<noteq> b"
      and "try_body env b fk w = (Inl e, w1)"
  shows "loop_body env recd w = except_clauses b fk e w1"
  using assms by (simp add: loop_body_def)

lemma loop_body_success:
  assumes "envelope env recd = Inr (b, fk)"
      and "getenv_value (PROCESSED_BUCKET_NAME env) \<noteq> b"
      and "try_body env b fk w = (Inr u, w1)"
  shows "loop_body env recd w = (Inr (), w1)"
  using assms by (simp add: loop_body_def)

lemma loop_body_guard:
  assumes "envelope env recd = Inr (b, fk)"
      and "getenv_value (PROCESSED_BUCKET_NAME env) = b"
  shows "loop_body env recd w = (Inl (Exn AssertionError guard_message), w)"
  using assms by (simp add: loop_body_def)

lemma all_succeed_run:
  "all_succeed env rs w = Some w' \<Longrightarrow>
     for_records env rs w = (Inr (), w') \<and>
     (\<exists>es. trace w' = trace w @ es \<and> stored_count es = length rs \<and> publish_count es = length rs)"
proof (induction rs arbitrary: w)
  case Nil
  then show ?case by (simp add: stored_count_def publish_count_def)
next
  case (Cons recd rest)
  from Cons.prems obtain b fk u w1 where
      env: "envelope env recd = Inr (b, fk)"
      and g: "getenv_value (PROCESSED_BUCKET_NAME env) \<noteq> b"
      and t: "try_body env b fk w = (Inr u, w1)"
      and r: "all_succeed env rest w1 = Some w'"
    by (auto split: sum.splits prod.splits if_splits)
  from Cons.IH[OF r] obtain es where
      f: "for_records env rest w1 = (Inr (), w')"
      and es: "trace w' = trace w1 @ es" "stored_count es = length rest" "publish_count es = length rest"
    by blast
  from try_body_extends[OF t] obtain es1 where es1: "trace w1 = trace w @ es1"
    by blast
  from try_body_success_counts[OF t] es1 have c: "stored_count es1 = 1" "publish_count es1 = 1"
    by (simp_all add: effects_since_append)
  have "for_records env (recd # rest) w = (Inr (), w')"
    using loop_body_success[OF env g t] f by simp
  moreover have "trace w' = trace w @ (es1 @ es)"
    using es(1) es1 by simp
  moreover have "stored_count (es1 @ es) = length (recd # rest)" "publish_count (es1 @ es) = length (recd # rest)"
    using c es(2,3) by (simp_all add: stored_count_append publish_count_append)
  ultimately show ?case by blast
qed

lemma guard_violation_propagates:
  assumes "Records event = before @ recd # rest"
      and "for_records env before (emit (Printed (LogEvent event)) w) = (Inr (), w1)"
      and "envelope env recd = Inr (source_bucket_name, file_key)"
      and "getenv_value (PROCESSED_BUCKET_NAME env) = source_bucket_name"
  shows "lambda_handler env event w = (Inl (Exn AssertionError guard_message), w1)"
proof -
  have "for_records env (recd # rest) w1 = (Inl (Exn AssertionError guard_message), w1)"
    using loop_body_guard[OF assms(3,4)] by simp
  then have "for_records env (Records event) (emit (Printed (LogEvent event)) w) =
      (Inl (Exn AssertionError guard_message), w1)"
    using assms(1,2) by (simp add: for_records_append)
  then show ?thesis
    by (simp add: lambda_handler_def io_defs)
qed

section \<open>The example environments at work\<close>

lemma envelope_decoded:
  "json_loads env (body recd) = Inr (s3_notification_value b k) \<Longrightarrow>
     envelope env recd = Inr (PStr b, PStr k)"
  by (simp add: envelope_def bind_exn_def s3_notification_value_def)

lemma example_loads_known:
  "example_loads (s3_notification ''raw'' ''cat.jpg'') = Inr (s3_notification_value ''raw'' ''cat.jpg'')"
  "example_loads (s3_notification ''raw'' ''dog.jpg'') = Inr (s3_notification_value ''raw'' ''dog.jpg'')"
  "example_loads (s3_notification ''raw'' ''owl.jpg'') = Inr (s3_notification_value ''raw'' ''owl.jpg'')"
  "example_loads (s3_notification ''resized'' ''processed-cat.jpg'') =
     Inr (s3_notification_value ''resized'' ''processed-cat.jpg'')"
  "example_loads ''not json'' = Inl (Exn (LibraryError ''JSONDecodeError'') ''Expecting value: line 1 column 1 (char 0)'')"
  "example_loads test_event_text = Inr test_event_value"
  by (simp_all add: example_loads_def s3_notification_def test_event_text_def)

lemma json_loads_examples:
  "json_loads example_env = example_loads"
  "json_loads failing_codec_env = example_loads"
  "json_loads failing_publish_env = example_loads"
  "json_loads failing_presign_env = example_loads"
  by (simp_all add: example_env_def failing_codec_env_def failing_publish_env_def failing_presign_env_def)

lemma example_envelopes:
  "envelope example_env (notify ''raw'' ''cat.jpg'') = Inr (PStr ''raw'', PStr ''cat.jpg'')"
  "envelope example_env (notify ''raw'' ''dog.jpg'') = Inr (PStr ''raw'', PStr ''dog.jpg'')"
  "envelope example_env (notify ''raw'' ''owl.jpg'') = Inr (PStr ''raw'', PStr ''owl.jpg'')"
  "envelope example_env (notify ''resized'' ''processed-cat.jpg'') =
     Inr (PStr ''resized'', PStr ''processed-cat.jpg'')"
  "envelope failing_codec_env (notify ''raw'' ''cat.jpg'') = Inr (PStr ''raw'', PStr ''cat.jpg'')"
  "envelope failing_publish_env (notify ''raw'' ''cat.jpg'') = Inr (PStr ''raw'', PStr ''cat.jpg'')"
  "envelope failing_presign_env (notify ''raw'' ''cat.jpg'') = Inr (PStr ''raw'', PStr ''cat.jpg'')"
  by (rule envelope_decoded, simp add: json_loads_examples example_loads_known notify_def)+

lemma example_resize:
  "resize_image example_env ''abcd'' = Inr ''xx''"
  "resize_image example_env ''abcdef'' = Inr ''xxx''"
  "resize_image failing_publish_env ''abcd'' = Inr ''xx''"
  "resize_image failing_presign_env ''abcd'' = Inr ''xx''"
  "resize_image failing_codec_env ''abcd'' = Inl (Exn AssertionError [])"
  by code_simp+

lemma example_fields:
  "PROCESSED_BUCKET_NAME example_env = Some ''resized''"
  "SNS_TOPIC_ARN example_env = Some ''arn:aws:sns:us-east-1:000000000000:ImageResizeTopic''"
  "json_dumps example_env = example_dumps"
  "get_object_fault example_env = (\<lambda>w b k. None)"
  "put_object_fault example_env = (\<lambda>w b k c. None)"
  "delete_object_fault example_env = (\<lambda>w b k. None)"
  "presign_url example_env = (\<lambda>w b k n. Inr (''https://resized.s3.amazonaws.com/'' @ k))"
  "sns_publish example_env = (\<lambda>w t m. Inr (PDict [(''MessageId'', PStr ''1'')]))"
  by (simp_all add: example_env_def)

lemma failing_codec_fields:
  "PROCESSED_BUCKET_NAME failing_codec_env = Some ''resized''"
  "get_object_fault failing_codec_env = (\<lambda>w b k. None)"
  by (simp_all add: example_env_def failing_codec_env_def)

lemma failing_publish_fields:
  "PROCESSED_BUCKET_NAME failing_publish_env = Some ''resized''"
  "SNS_TOPIC_ARN failing_publish_env = Some ''arn:aws:sns:us-east-1:000000000000:ImageResizeTopic''"
  "json_dumps failing_publish_env = example_dumps"
  "get_object_fault failing_publish_env = (\<lambda>w b k. None)"
  "put_object_fault failing_publish_env = (\<lambda>w b k c. None)"
  "presign_url failing_publish_env = (\<lambda>w b k n. Inr (''https://resized.s3.amazonaws.com/'' @ k))"
  "sns_publish failing_publish_env = (\<lambda>w t m. Inl service_down)"
  by (simp_all add: example_env_def failing_publish_env_def)

lemma failing_presign_fields:
  "PROCESSED_BUCKET_NAME failing_presign_env = Some ''resized''"
  "get_object_fault failing_presign_env = (\<lambda>w b k. None)"
  "put_object_fault failing_presign_env = (\<lambda>w b k c. None)"
  "presign_url failing_presign_env = (\<lambda>w b k n. Inl service_down)"
  by (simp_all add: example_env_def failing_presign_env_def)

lemma example_guard: "getenv_value (PROCESSED_BUCKET_NAME example_env) \<noteq> PStr ''raw''"
  "getenv_value (PROCESSED_BUCKET_NAME failing_codec_env) \<noteq> PStr ''raw''"
  "getenv_value (PROCESSED_BUCKET_NAME failing_publish_env) \<noteq> PStr ''raw''"
  "getenv_value (PROCESSED_BUCKET_NAME failing_presign_env) \<noteq> PStr ''raw''"
  by (simp_all add: getenv_value_def example_fields failing_codec_fields failing_publish_fields failing_presign_fields)

lemma example_run:
  assumes "objects w (PStr ''raw'', k) = Some (PBytes c)"
      and "resize_image example_env c = Inr out"
  shows "try_body example_env (PStr ''raw'') (PStr k) w = (Inr (), processed k out w)"
  using assms
  by (simp add: try_body_def io_defs client_defs getenv_value_def example_fields processed_def)

lemma example_missing:
  assumes "objects w (PStr ''raw'', k) = None"
  shows "try_body example_env (PStr ''raw'') (PStr k) w =
           (Inl no_such_key, emit (Called (GetObject (PStr ''raw'') k) (Some no_such_key)) w)"
  using assms
  by (simp add: try_body_def io_defs get_object_def example_fields no_such_key_def)

lemma effects_since_start: "trace w = [] \<Longrightarrow> effects_since w w' = trace w'"
  by (simp add: effects_since_def)

lemma example_world_facts:
  "trace example_world = []"
  "objects example_world (PStr ''raw'', ''cat.jpg'') = Some (PBytes ''abcd'')"
  "objects example_world (PStr ''raw'', ''dog.jpg'') = Some (PBytes ''abcdef'')"
  "objects example_world (PStr ''raw'', ''owl.jpg'') = None"
  by (simp_all add: example_world_def)

section \<open>The recursion guard\<close>

text \<open>
  C1. The claim is that a record whose source bucket is the destination bucket is skipped,
  the guard message logged once, and the batch continued. The \<open>assert\<close> of line 36
  stands before the \<open>try\<close>, so the \<open>except AssertionError\<close> clause written for it never
  sees it. Run on a batch whose first record names the destination bucket and whose second
  is an ordinary upload, the handler raises the \<open>AssertionError\<close>: it has printed the event
  and nothing else, and the second record is left unprocessed in the source bucket. Nothing
  is fetched, stored or deleted, as the claim says; the log line and the rest of the batch
  are missing.
\<close>

theorem guard_violation_leaves_handler:
  "lambda_handler example_env guard_event example_world =
     (Inl (Exn AssertionError guard_message), emit (Printed (LogEvent guard_event)) example_world) \<and>
   trace (snd (lambda_handler example_env guard_event example_world)) = [Printed (LogEvent guard_event)] \<and>
   objects (snd (lambda_handler example_env guard_event example_world)) (PStr ''raw'', ''cat.jpg'')
     = Some (PBytes ''abcd'')"
proof -
  have a: "Records guard_event = [] @ notify ''resized'' ''processed-cat.jpg'' # [notify ''raw'' ''cat.jpg'']"
    by (simp add: guard_event_def)
  have b: "for_records example_env [] (emit (Printed (LogEvent guard_event)) example_world) =
      (Inr (), emit (Printed (LogEvent guard_event)) example_world)"
    by simp
  have c: "getenv_value (PROCESSED_BUCKET_NAME example_env) = PStr ''resized''"
    by (simp add: example_fields getenv_value_def)
  have "lambda_handler example_env guard_event example_world =
     (Inl (Exn AssertionError guard_message), emit (Printed (LogEvent guard_event)) example_world)"
    using a b example_envelopes(4) c by (rule guard_violation_propagates)
  then show ?thesis
    by (simp add: emit_def example_world_def)
qed

section \<open>A failing record does not stop the others\<close>




section \<open>A batch with one failing record\<close>

text \<open>
  C3, as amended. In a batch where one record fails in its steps and the records before
  and after it succeed, the handler returns its fixed acknowledgment, as it does for the
  empty batch. The other records store one object and publish once each; the failing
  record adds what it had done before it failed: at most one store, and a publish call
  only after a store.
\<close>

theorem one_failing_record:
  assumes "Records event = before @ recd # rest"
      and "all_succeed env before (emit (Printed (LogEvent event)) w) = Some w1"
      and "envelope env recd = Inr (source_bucket_name, file_key)"
      and "getenv_value (PROCESSED_BUCKET_NAME env) \<noteq> source_bucket_name"
      and "try_body env source_bucket_name file_key w1 = (Inl e, w2)"
      and "all_succeed env rest (snd (except_clauses source_bucket_name file_key e w2)) = Some w3"
  shows "lambda_handler env event w = (Inr (acknowledgment env), w3) \<and>
         stored_count (effects_since w w3) =
           length before + length rest + stored_count (effects_since w1 w2) \<and>
         publish_count (effects_since w w3) =
           length before + length rest + publish_count (effects_since w1 w2) \<and>
         stored_count (effects_since w1 w2) \<le> 1 \<and>
         publish_count (effects_since w1 w2) \<le> stored_count (effects_since w1 w2) \<and>
         lambda_handler env \<lparr>Records = []\<rparr> w =
           (Inr (acknowledgment env), emit (Printed (LogEvent \<lparr>Records = []\<rparr>)) w)"
proof -
  let ?w0 = "emit (Printed (LogEvent event)) w"
  let ?log = "if cls e = AssertionError then [Printed (LogException e)]
         else [Printed (LogErrorProcessing file_key source_bucket_name e), Printed (LogTraceback e)]"
  let ?w2' = "snd (except_clauses source_bucket_name file_key e w2)"
  from all_succeed_run[OF assms(2)] obtain es1 where
      f1: "for_records env before ?w0 = (Inr (), w1)"
      and es1: "trace w1 = trace ?w0 @ es1" "stored_count es1 = length before" "publish_count es1 = length before"
    by blast
  from try_body_extends[OF assms(5)] obtain es2 where es2: "trace w2 = trace w1 @ es2"
    by blast
  have ex: "except_clauses source_bucket_name file_key e w2 = (Inr (), ?w2')"
    by (simp add: except_clauses_result)
  have tr2: "trace ?w2' = trace w2 @ ?log"
    by (simp add: except_clauses_result)
  from all_succeed_run[OF assms(6)] obtain es3 where
      f3: "for_records env rest ?w2' = (Inr (), w3)"
      and es3: "trace w3 = trace ?w2' @ es3" "stored_count es3 = length rest" "publish_count es3 = length rest"
    by blast
  have lb: "loop_body env recd w1 = (Inr (), ?w2')"
    using loop_body_caught[OF assms(3,4,5)] ex by simp
  have "for_records env (recd # rest) w1 = (Inr (), w3)"
    using lb f3 by simp
  then have "for_records env (Records event) ?w0 = (Inr (), w3)"
    using f1 assms(1) by (simp add: for_records_append)
  then have h: "lambda_handler env event w = (Inr (acknowledgment env), w3)"
    by (simp add: lambda_handler_def io_defs)
  have tr: "trace w3 = trace w @ ([Printed (LogEvent event)] @ es1 @ es2 @ ?log @ es3)"
    using es1(1) es2 tr2 es3(1) by (simp add: trace_emit)
  have e3: "effects_since w w3 = [Printed (LogEvent event)] @ es1 @ es2 @ ?log @ es3"
    using tr by (rule effects_since_append)
  have e2: "effects_since w1 w2 = es2"
    using es2 by (rule effects_since_append)
  have l0: "stored_count ([Printed (LogEvent event)]) = 0" "publish_count ([Printed (LogEvent event)]) = 0"
       "stored_count ?log = 0" "publish_count ?log = 0"
    by (simp_all add: stored_count_def publish_count_def)
  have s: "stored_count (effects_since w w3) = length before + length rest + stored_count (effects_since w1 w2)"
    unfolding e3 e2 stored_count_append using es1(2) es3(2) l0 by simp
  have p: "publish_count (effects_since w w3) = length before + length rest + publish_count (effects_since w1 w2)"
    unfolding e3 e2 publish_count_append using es1(3) es3(3) l0 by simp
  have emp: "lambda_handler env \<lparr>Records = []\<rparr> w =
           (Inr (acknowledgment env), emit (Printed (LogEvent \<lparr>Records = []\<rparr>)) w)"
    by (simp add: lambda_handler_def io_defs)
  from h s p try_body_failure_counts[OF assms(5)] emp show ?thesis
    by simp
qed

theorem one_failing_record_witness:
  "fst (lambda_handler example_env one_failure_event example_world) = Inr (acknowledgment example_env) \<and>
   length (Records one_failure_event) = 3 \<and>
   stored_count (trace (snd (lambda_handler example_env one_failure_event example_world))) = 2 \<and>
   publish_count (trace (snd (lambda_handler example_env one_failure_event example_world))) = 2"
proof -
  let ?w0 = "emit (Printed (LogEvent one_failure_event)) example_world"
  let ?w1 = "processed ''cat.jpg'' ''xx'' ?w0"
  let ?w2 = "emit (Called (GetObject (PStr ''raw'') ''owl.jpg'') (Some no_such_key)) ?w1"
  let ?w2' = "snd (except_clauses (PStr ''raw'') (PStr ''owl.jpg'') no_such_key ?w2)"
  let ?w3 = "processed ''dog.jpg'' ''xxx'' ?w2'"
  have r: "Records one_failure_event =
      [notify ''raw'' ''cat.jpg''] @ notify ''raw'' ''owl.jpg'' # [notify ''raw'' ''dog.jpg'']"
    by (simp add: one_failure_event_def)
  have o0: "objects ?w0 (PStr ''raw'', ''cat.jpg'') = Some (PBytes ''abcd'')"
    by (simp add: objects_emit example_world_facts)
  have a: "all_succeed example_env [notify ''raw'' ''cat.jpg''] ?w0 = Some ?w1"
    using example_run[OF o0 example_resize(1)] example_guard(1)
    by (simp add: example_envelopes)
  have o1: "objects ?w1 (PStr ''raw'', ''owl.jpg'') = None"
    by (simp add: processed_def objects_emit example_world_facts)
  have t: "try_body example_env (PStr ''raw'') (PStr ''owl.jpg'') ?w1 = (Inl no_such_key, ?w2)"
    using o1 by (rule example_missing)
  have o2: "objects ?w2' (PStr ''raw'', ''dog.jpg'') = Some (PBytes ''abcdef'')"
    by (simp add: except_clauses_result processed_def objects_emit example_world_facts)
  have c: "all_succeed example_env [notify ''raw'' ''dog.jpg''] ?w2' = Some ?w3"
    using example_run[OF o2 example_resize(2)] example_guard(1)
    by (simp add: example_envelopes)
  have z: "stored_count (effects_since ?w1 ?w2) = 0" "publish_count (effects_since ?w1 ?w2) = 0"
    by (simp_all add: effects_since_def trace_emit stored_count_def publish_count_def)
  from one_failing_record[OF r a example_envelopes(3) example_guard(1) t c] z
  show ?thesis
    by (simp add: effects_since_start example_world_facts(1) one_failure_event_def)
qed

text \<open>
  The claim as written counts \<open>N - 1\<close> stored objects whatever the step that fails. In a
  batch of one record whose publish call raises, the record fails and the handler
  acknowledges, yet one object has been stored and stays in the destination bucket.
\<close>

theorem stored_object_of_failed_record_counts:
  "fst (lambda_handler failing_publish_env single_event example_world) =
     Inr (acknowledgment failing_publish_env) \<and>
   fst (try_body failing_publish_env (PStr ''raw'') (PStr ''cat.jpg'')
          (emit (Printed (LogEvent single_event)) example_world)) = Inl service_down \<and>
   length (Records single_event) = 1 \<and>
   stored_count (trace (snd (lambda_handler failing_publish_env single_event example_world))) = 1 \<and>
   stored_count (trace (snd (lambda_handler failing_publish_env single_event example_world)))
     \<noteq> length (Records single_event) - 1 \<and>
   objects (snd (lambda_handler failing_publish_env single_event example_world))
     (PStr ''resized'', ''processed-cat.jpg'') = Some (PBytes ''xx'')"
proof -
  let ?w0 = "emit (Printed (LogEvent single_event)) example_world"
  let ?dst = "PStr ''resized''"
  let ?w1 = "emit (Called (GetObject (PStr ''raw'') ''cat.jpg'') None) ?w0"
  let ?w2 = "emit (Called (PutObject ?dst ''processed-cat.jpg'' ''xx'') None)
               (?w1\<lparr>objects := (objects ?w1)((?dst, ''processed-cat.jpg'') \<mapsto> PBytes ''xx'')\<rparr>)"
  let ?w3 = "emit (Called (GeneratePresignedUrl ?dst ''processed-cat.jpg'' 3600) None) ?w2"
  let ?m = "example_dumps (sns_message ''https://resized.s3.amazonaws.com/processed-cat.jpg'')"
  let ?w4 = "emit (Called (Publish (PStr ''arn:aws:sns:us-east-1:000000000000:ImageResizeTopic'') ?m)
                     (Some service_down)) ?w3"
  have g: "get_object failing_publish_env (PStr ''raw'') ''cat.jpg'' ?w0 = (Inr (PBytes ''abcd''), ?w1)"
    by (simp add: get_object_def failing_publish_fields example_world_facts objects_emit)
  have p: "put_object failing_publish_env (getenv_value (PROCESSED_BUCKET_NAME failing_publish_env))
      (''processed-'' @ ''cat.jpg'') ''xx'' ?w1 = (Inr (), ?w2)"
    by (simp add: put_object_def failing_publish_fields getenv_value_def)
  have u: "generate_presigned_url failing_publish_env (getenv_value (PROCESSED_BUCKET_NAME failing_publish_env))
      (''processed-'' @ ''cat.jpg'') None ?w2 = (Inr (Some ''https://resized.s3.amazonaws.com/processed-cat.jpg''), ?w3)"
    by (simp add: generate_presigned_url_def failing_publish_fields getenv_value_def)
  have n: "''https://resized.s3.amazonaws.com/processed-cat.jpg'' \<noteq> []"
    by simp
  have b: "publish failing_publish_env (getenv_value (SNS_TOPIC_ARN failing_publish_env))
      (json_dumps failing_publish_env (sns_message ''https://resized.s3.amazonaws.com/processed-cat.jpg'')) ?w3
      = (Inl service_down, ?w4)"
    by (simp add: publish_def failing_publish_fields getenv_value_def)
  have t: "try_body failing_publish_env (PStr ''raw'') (PStr ''cat.jpg'') ?w0 = (Inl service_down, ?w4)"
    using g example_resize(3) p u n b by (rule try_body_publish_raises)
  have l: "loop_body failing_publish_env (notify ''raw'' ''cat.jpg'') ?w0 =
      except_clauses (PStr ''raw'') (PStr ''cat.jpg'') service_down ?w4"
    using example_envelopes(6) example_guard(3) t by (rule loop_body_caught)
  have h: "lambda_handler failing_publish_env single_event example_world =
      (Inr (acknowledgment failing_publish_env),
       snd (except_clauses (PStr ''raw'') (PStr ''cat.jpg'') service_down ?w4))"
  proof -
    have rs: "Records single_event = [notify ''raw'' ''cat.jpg'']"
      by (simp add: single_event_def)
    have "for_records failing_publish_env (Records single_event) ?w0 =
        (Inr (), snd (except_clauses (PStr ''raw'') (PStr ''cat.jpg'') service_down ?w4))"
      unfolding rs using l by (simp add: except_clauses_result)
    then show ?thesis
      by (simp add: lambda_handler_def io_defs)
  qed
  have c1: "fst (lambda_handler failing_publish_env single_event example_world) =
      Inr (acknowledgment failing_publish_env)"
    by (simp add: h)
  have c2: "fst (try_body failing_publish_env (PStr ''raw'') (PStr ''cat.jpg'') ?w0) = Inl service_down"
    by (simp add: t)
  have c3: "length (Records single_event) = 1"
    by (simp add: single_event_def)
  have c4: "stored_count (trace (snd (lambda_handler failing_publish_env single_event example_world))) = 1"
    by (simp add: h except_clauses_result trace_emit stored_count_def example_world_facts(1))
  have c5: "objects (snd (lambda_handler failing_publish_env single_event example_world))
     (PStr ''resized'', ''processed-cat.jpg'') = Some (PBytes ''xx'')"
    by (simp add: h except_clauses_result objects_emit)
  have c6: "stored_count (trace (snd (lambda_handler failing_publish_env single_event example_world)))
     \<noteq> length (Records single_event) - 1"
    by (simp add: c3 c4)
  from c1 c2 c3 c4 c5 c6 show ?thesis
    by blast
qed

section \<open>A record that succeeds\<close>

text \<open>
  C4. A record whose steps all succeed makes, in this order: one fetch, one store in the
  destination bucket under \<open>processed-\<close> followed by the key, one presign, one publish of a
  message with a \<open>default\<close> and an \<open>email\<close> text, and one delete of the original key in
  the source bucket, issued after the publish has returned.
\<close>

theorem successful_record_effects:
  assumes "envelope env recd = Inr (source_bucket_name, file_key)"
      and "getenv_value (PROCESSED_BUCKET_NAME env) \<noteq> source_bucket_name"
      and "try_body env source_bucket_name file_key w = (Inr (), w')"
  shows "loop_body env recd w = (Inr (), w') \<and>
    (\<exists>key buffer url response.
       file_key = PStr key \<and>
       effects_since w w' =
         [Called (GetObject source_bucket_name key) None,
          Called (PutObject (getenv_value (PROCESSED_BUCKET_NAME env)) (''processed-'' @ key) buffer) None,
          Called (GeneratePresignedUrl (getenv_value (PROCESSED_BUCKET_NAME env))
                    (''processed-'' @ key) 3600) None,
          Called (Publish (getenv_value (SNS_TOPIC_ARN env))
                    (json_dumps env (PDict
                       [(''default'', PStr ''Your image has been processed successfully.''),
                        (''email'', PStr (''Your image has been processed and is available at the following link: '' @ url))]))) None,
          Called (DeleteObject source_bucket_name key) None,
          Printed (LogProcessed key source_bucket_name),
          Printed (LogResponse response)] \<and>
       objects w' = (objects w)
          ((getenv_value (PROCESSED_BUCKET_NAME env), ''processed-'' @ key) \<mapsto> PBytes buffer,
           (source_bucket_name, key) := None)) \<and>
    stored_count (effects_since w w') = 1 \<and>
    publish_count (effects_since w w') = 1 \<and>
    length (filter is_delete_call (effects_since w w')) = 1"
proof -
  from try_body_success[OF assms(3)] obtain key content buffer url response where
      k: "file_key = PStr key"
      and t: "trace w' = trace w @
       [Called (GetObject source_bucket_name key) None,
        Called (PutObject (getenv_value (PROCESSED_BUCKET_NAME env)) (''processed-'' @ key) buffer) None,
        Called (GeneratePresignedUrl (getenv_value (PROCESSED_BUCKET_NAME env)) (''processed-'' @ key) 3600) None,
        Called (Publish (getenv_value (SNS_TOPIC_ARN env)) (json_dumps env (sns_message url))) None,
        Called (DeleteObject source_bucket_name key) None,
        Printed (LogProcessed key source_bucket_name),
        Printed (LogResponse response)]"
      and o: "objects w' = (objects w)
        ((getenv_value (PROCESSED_BUCKET_NAME env), ''processed-'' @ key) \<mapsto> PBytes buffer,
         (source_bucket_name, key) := None)"
    by blast
  note e = effects_since_append[OF t]
  have l: "loop_body env recd w = (Inr (), w')"
    using assms by (rule loop_body_success)
  have c: "stored_count (effects_since w w') = 1" "publish_count (effects_since w w') = 1"
      "length (filter is_delete_call (effects_since w w')) = 1"
    unfolding e by (simp_all add: stored_count_def publish_count_def)
  from k e o have "\<exists>key buffer url response.
       file_key = PStr key \<and>
       effects_since w w' =
         [Called (GetObject source_bucket_name key) None,
          Called (PutObject (getenv_value (PROCESSED_BUCKET_NAME env)) (''processed-'' @ key) buffer) None,
          Called (GeneratePresignedUrl (getenv_value (PROCESSED_BUCKET_NAME env))
                    (''processed-'' @ key) 3600) None,
          Called (Publish (getenv_value (SNS_TOPIC_ARN env))
                    (json_dumps env (PDict
                       [(''default'', PStr ''Your image has been processed successfully.''),
                        (''email'', PStr (''Your image has been processed and is available at the following link: '' @ url))]))) None,
          Called (DeleteObject source_bucket_name key) None,
          Printed (LogProcessed key source_bucket_name),
          Printed (LogResponse response)] \<and>
       objects w' = (objects w)
          ((getenv_value (PROCESSED_BUCKET_NAME env), ''processed-'' @ key) \<mapsto> PBytes buffer,
           (source_bucket_name, key) := None)"
    unfolding sns_message_def by blast
  with l c show ?thesis by blast
qed

theorem successful_record_effects_witness:
  "loop_body example_env (notify ''raw'' ''cat.jpg'') example_world =
     (Inr (), processed ''cat.jpg'' ''xx'' example_world) \<and>
   stored_count (trace (processed ''cat.jpg'' ''xx'' example_world)) = 1 \<and>
   publish_count (trace (processed ''cat.jpg'' ''xx'' example_world)) = 1 \<and>
   length (filter is_delete_call (trace (processed ''cat.jpg'' ''xx'' example_world))) = 1"
proof -
  have t: "try_body example_env (PStr ''raw'') (PStr ''cat.jpg'') example_world =
      (Inr (), processed ''cat.jpg'' ''xx'' example_world)"
    using example_world_facts(2) example_resize(1) by (rule example_run)
  from successful_record_effects[OF example_envelopes(1) example_guard(1) t]
  show ?thesis
    by (simp add: effects_since_start example_world_facts(1))
qed

section \<open>The image is halved\<close>

lemma resize_image_unfold:
  assumes "image_open env content = Inr img"
      and "image_size env img = (width, height)"
  shows "resize_image env content =
           (case image_resize env img (int (width div 2), int (height div 2)) of
              Inl e \<Rightarrow> Inl e | Inr resized \<Rightarrow> image_save_jpeg env resized)"
  using assms by (simp add: resize_image_def bind_exn_def half_size_div)

text \<open>
  C5, as amended. For an image that decodes to \<open>width\<close> by \<open>height\<close> pixels, the size
  the handler asks the library to resize to, computed with \<open>int(width / 2)\<close> and
  \<open>int(height / 2)\<close>, is the floor of each half, so a side of one pixel is asked for as 0.
  The codec step gives what the library's resize and JPEG save give for that request. When
  they succeed, the stored bytes are the JPEG form of the resized image, which measures
  \<open>width div 2\<close> by \<open>height div 2\<close> for a library that returns images of the size asked
  for. When the library refuses the request, as one that refuses a side below 1 does for a
  side of one pixel, there is no output image: the record fails with the library's
  exception after the fetch and nothing is stored.
\<close>

theorem halved_size_is_requested:
  assumes "image_open env content = Inr img"
      and "image_size env img = (width, height)"
  shows "half_size (width, height) = (int (width div 2), int (height div 2)) \<and>
         half_size (1, height) = (0, int (height div 2)) \<and>
         half_size (width, 1) = (int (width div 2), 0) \<and>
         resize_image env content =
           (case image_resize env img (int (width div 2), int (height div 2)) of
              Inl e \<Rightarrow> Inl e | Inr resized \<Rightarrow> image_save_jpeg env resized) \<and>
         (\<forall>buffer. resize_image env content = Inr buffer \<longrightarrow>
            (\<exists>resized.
               image_resize env img (int (width div 2), int (height div 2)) = Inr resized \<and>
               image_save_jpeg env resized = Inr buffer \<and>
               ((\<forall>i sz r. image_resize env i sz = Inr r \<longrightarrow>
                    image_size env r = (nat (fst sz), nat (snd sz))) \<longrightarrow>
                image_size env resized = (width div 2, height div 2)))) \<and>
         ((\<forall>i sz. fst sz < 1 \<or> snd sz < 1 \<longrightarrow> (\<exists>e. image_resize env i sz = Inl e)) \<and>
          (width = 1 \<or> height = 1) \<longrightarrow>
            (\<exists>e. resize_image env content = Inl e)) \<and>
         (\<forall>b key w w1 e.
            get_object env b key w = (Inr (PBytes content), w1) \<and>
            resize_image env content = Inl e \<longrightarrow>
              try_body env b (PStr key) w = (Inl e, w1) \<and>
              effects_since w w1 = [Called (GetObject b key) None] \<and>
              objects w1 = objects w)"
proof -
  note u = resize_image_unfold[OF assms]
  have p5: "\<exists>resized.
               image_resize env img (int (width div 2), int (height div 2)) = Inr resized \<and>
               image_save_jpeg env resized = Inr buffer \<and>
               ((\<forall>i sz r. image_resize env i sz = Inr r \<longrightarrow>
                    image_size env r = (nat (fst sz), nat (snd sz))) \<longrightarrow>
                image_size env resized = (width div 2, height div 2))"
    if b: "resize_image env content = Inr buffer" for buffer
  proof -
    from b u obtain resized where
        r: "image_resize env img (int (width div 2), int (height div 2)) = Inr resized"
        and s: "image_save_jpeg env resized = Inr buffer"
      by (auto split: sum.splits)
    have "image_size env resized = (width div 2, height div 2)"
      if "\<forall>i sz r. image_resize env i sz = Inr r \<longrightarrow> image_size env r = (nat (fst sz), nat (snd sz))"
      using that r by fastforce
    with r s show ?thesis by blast
  qed
  have p6: "\<exists>e. resize_image env content = Inl e"
    if refuse: "\<forall>i sz. fst sz < 1 \<or> snd sz < 1 \<longrightarrow> (\<exists>e. image_resize env i sz = Inl e)"
      and one: "width = 1 \<or> height = 1"
  proof -
    from one have "fst (int (width div 2), int (height div 2)) < 1 \<or>
                   snd (int (width div 2), int (height div 2)) < 1"
      by auto
    with refuse obtain e where
      "image_resize env img (int (width div 2), int (height div 2)) = Inl e"
      by blast
    with u show ?thesis by simp
  qed
  have p7: "try_body env b (PStr key) w = (Inl e, w1) \<and>
              effects_since w w1 = [Called (GetObject b key) None] \<and>
              objects w1 = objects w"
    if g: "get_object env b key w = (Inr (PBytes content), w1)"
      and f: "resize_image env content = Inl e" for b key w w1 e
  proof -
    from g have w1: "w1 = emit (Called (GetObject b key) None) w"
      by (auto elim: get_object_cases)
    have "trace w1 = trace w @ [Called (GetObject b key) None]"
      by (simp add: w1 trace_emit)
    then have "effects_since w w1 = [Called (GetObject b key) None]"
      by (rule effects_since_append)
    moreover have "objects w1 = objects w"
      by (simp add: w1 objects_emit)
    moreover have "try_body env b (PStr key) w = (Inl e, w1)"
      using g f by (rule try_body_resize_raises)
    ultimately show ?thesis by blast
  qed
  have h1: "half_size (width, height) = (int (width div 2), int (height div 2))"
    and h2: "half_size (1, height) = (0, int (height div 2))"
    and h3: "half_size (width, 1) = (int (width div 2), 0)"
    by (simp_all add: half_size_div)
  have q5: "\<forall>buffer. resize_image env content = Inr buffer \<longrightarrow>
            (\<exists>resized.
               image_resize env img (int (width div 2), int (height div 2)) = Inr resized \<and>
               image_save_jpeg env resized = Inr buffer \<and>
               ((\<forall>i sz r. image_resize env i sz = Inr r \<longrightarrow>
                    image_size env r = (nat (fst sz), nat (snd sz))) \<longrightarrow>
                image_size env resized = (width div 2, height div 2)))"
    using p5 by blast
  have q6: "(\<forall>i sz. fst sz < 1 \<or> snd sz < 1 \<longrightarrow> (\<exists>e. image_resize env i sz = Inl e)) \<and>
          (width = 1 \<or> height = 1) \<longrightarrow>
            (\<exists>e. resize_image env content = Inl e)"
    using p6 by blast
  have q7: "\<forall>b key w w1 e.
            get_object env b key w = (Inr (PBytes content), w1) \<and>
            resize_image env content = Inl e \<longrightarrow>
              try_body env b (PStr key) w = (Inl e, w1) \<and>
              effects_since w w1 = [Called (GetObject b key) None] \<and>
              objects w1 = objects w"
    using p7 by blast
  show ?thesis
    by (intro conjI h1 h2 h3 u q5 q6 q7)
qed

theorem halved_size_is_requested_witness:
  "(\<exists>resized. image_resize example_env (4, 2) (2, 1) = Inr resized \<and>
       image_save_jpeg example_env resized = Inr ''xx'' \<and>
       image_size example_env resized = (2, 1)) \<and>
   (\<exists>e. resize_image example_env ''a'' = Inl e)"
proof -
  have a: "image_open example_env ''abcd'' = Inr (4, 2)"
    by (simp add: example_env_def)
  have b: "image_size example_env (4, 2) = (4, 2)"
    by (simp add: example_env_def)
  have a': "image_open example_env ''a'' = Inr (1, 2)"
    by (simp add: example_env_def)
  have b': "image_size example_env (1, 2) = (1, 2)"
    by (simp add: example_env_def)
  have d: "\<forall>i sz r. image_resize example_env i sz = Inr r \<longrightarrow>
             image_size example_env r = (nat (fst sz), nat (snd sz))"
    by (auto simp: example_env_def split: if_splits)
  have f: "\<forall>i sz. fst sz < 1 \<or> snd sz < 1 \<longrightarrow> (\<exists>e. image_resize example_env i sz = Inl e)"
    by (simp add: example_env_def)
  from halved_size_is_requested[OF a b] example_resize(1) obtain resized where
      r: "image_resize example_env (4, 2) (int (4 div 2), int (2 div 2)) = Inr resized"
      and s: "image_save_jpeg example_env resized = Inr ''xx''"
      and c: "(\<forall>i sz r. image_resize example_env i sz = Inr r \<longrightarrow>
                 image_size example_env r = (nat (fst sz), nat (snd sz))) \<longrightarrow>
              image_size example_env resized = (4 div 2, 2 div 2)"
    by blast
  from c d have "image_size example_env resized = (4 div 2, 2 div 2)"
    by blast
  with r s have 1: "\<exists>resized. image_resize example_env (4, 2) (2, 1) = Inr resized \<and>
       image_save_jpeg example_env resized = Inr ''xx'' \<and>
       image_size example_env resized = (2, 1)"
    by (intro exI[of _ resized]) simp
  from halved_size_is_requested[OF a' b'] f
  have 2: "\<exists>e. resize_image example_env ''a'' = Inl e"
    by blast
  from 1 2 show ?thesis by blast
qed

text \<open>
  The claim as written gives every decodable image an output of the halved size. A payload
  that decodes to an image one pixel wide is asked to be resized to a width of 0; a
  library that refuses a side below 1, as the example one does, raises, so no output
  exists and nothing is stored under the processed key.
\<close>

theorem one_pixel_image_has_no_output:
  "image_open example_env ''a'' = Inr (1, 2) \<and>
   image_size example_env (1, 2) = (1, 2) \<and>
   half_size (1, 2) = (0, 1) \<and>
   resize_image example_env ''a'' = Inl (Exn ValueError ''height and width must be > 0'') \<and>
   try_body example_env (PStr ''raw'') (PStr ''dot.jpg'') pixel_world =
     (Inl (Exn ValueError ''height and width must be > 0''),
      emit (Called (GetObject (PStr ''raw'') ''dot.jpg'') None) pixel_world) \<and>
   objects (snd (try_body example_env (PStr ''raw'') (PStr ''dot.jpg'') pixel_world))
     (PStr ''resized'', ''processed-dot.jpg'') = None"
proof -
  have a: "image_open example_env ''a'' = Inr (1, 2)"
    by (simp add: example_env_def)
  have b: "image_size example_env (1, 2) = (1, 2)"
    by (simp add: example_env_def)
  have h: "half_size (1, 2) = (0, 1)"
    by (simp add: half_size_div)
  have r: "image_resize example_env (1, 2) (0, 1) = Inl (Exn ValueError ''height and width must be > 0'')"
    by (simp add: example_env_def)
  have c: "resize_image example_env ''a'' = Inl (Exn ValueError ''height and width must be > 0'')"
    by (simp only: resize_image_def bind_exn_def a b h r sum.case)
  have g: "get_object example_env (PStr ''raw'') ''dot.jpg'' pixel_world =
      (Inr (PBytes ''a''), emit (Called (GetObject (PStr ''raw'') ''dot.jpg'') None) pixel_world)"
    by (simp add: get_object_def example_fields pixel_world_def)
  have t: "try_body example_env (PStr ''raw'') (PStr ''dot.jpg'') pixel_world =
     (Inl (Exn ValueError ''height and width must be > 0''),
      emit (Called (GetObject (PStr ''raw'') ''dot.jpg'') None) pixel_world)"
    using g c by (rule try_body_resize_raises)
  have o: "objects (snd (try_body example_env (PStr ''raw'') (PStr ''dot.jpg'') pixel_world))
     (PStr ''resized'', ''processed-dot.jpg'') = None"
    unfolding t by (simp add: objects_emit pixel_world_def)
  from a b h c t o show ?thesis by blast
qed

section \<open>The presigned link is required\<close>

text \<open>
  C6. The handler calls \<open>generate_presigned_url\<close> without an expiration, which stands for
  3600 seconds, and the presign call carries 3600. When no URL comes back (the call raised,
  or the URL is empty), the record stops with a \<open>ValueError\<close>: nothing is published and
  nothing is deleted.
\<close>

theorem presign_failure_aborts_record:
  assumes "get_object env source_bucket_name key w = (Inr (PBytes content), w1)"
      and "resize_image env content = Inr buffer"
      and "put_object env (getenv_value (PROCESSED_BUCKET_NAME env)) (''processed-'' @ key) buffer w1
             = (Inr (), w2)"
      and "generate_presigned_url env (getenv_value (PROCESSED_BUCKET_NAME env))
             (''processed-'' @ key) None w2 = (Inr presigned_url, w3)"
      and "falsy_url presigned_url"
  shows "generate_presigned_url env (getenv_value (PROCESSED_BUCKET_NAME env)) (''processed-'' @ key) None w2 =
         generate_presigned_url env (getenv_value (PROCESSED_BUCKET_NAME env)) (''processed-'' @ key) (Some 3600) w2 \<and>
         try_body env source_bucket_name (PStr key) w =
           (Inl (Exn ValueError ''Failed to generate a presigned URL.''), w3) \<and>
         (\<exists>out printed. effects_since w w3 =
            [Called (GetObject source_bucket_name key) None,
             Called (PutObject (getenv_value (PROCESSED_BUCKET_NAME env)) (''processed-'' @ key) buffer) None,
             Called (GeneratePresignedUrl (getenv_value (PROCESSED_BUCKET_NAME env))
                       (''processed-'' @ key) 3600) out] @ map Printed printed) \<and>
         filter is_publish_call (effects_since w w3) = [] \<and>
         filter is_delete_call (effects_since w w3) = []"
proof -
  let ?dst = "getenv_value (PROCESSED_BUCKET_NAME env)"
  let ?pk = "''processed-'' @ key"
  have d: "generate_presigned_url env ?dst ?pk None w2 = generate_presigned_url env ?dst ?pk (Some 3600) w2"
    by (simp add: generate_presigned_url_def)
  have t: "try_body env source_bucket_name (PStr key) w =
           (Inl (Exn ValueError ''Failed to generate a presigned URL.''), w3)"
    using assms by (rule try_body_no_url)
  from assms(1) have w1: "w1 = emit (Called (GetObject source_bucket_name key) None) w"
    by (auto elim: get_object_cases)
  from assms(3) have w2: "w2 = emit (Called (PutObject ?dst ?pk buffer) None)
        (w1\<lparr>objects := (objects w1)((?dst, ?pk) \<mapsto> PBytes buffer)\<rparr>)"
    by (auto elim: put_object_cases)
  from assms(4) obtain out printed where
    w3: "trace w3 = trace w2 @ ([Called (GeneratePresignedUrl ?dst ?pk 3600) out] @ map Printed printed)"
  proof (cases rule: generate_presigned_url_cases)
    case (1 e)
    then have "trace w3 = trace w2 @ ([Called (GeneratePresignedUrl ?dst ?pk 3600) (Some e)] @ map Printed [LogException e])"
      by (simp add: trace_emit)
    then show ?thesis by (rule that)
  next
    case (2 url)
    then have "trace w3 = trace w2 @ ([Called (GeneratePresignedUrl ?dst ?pk 3600) None] @ map Printed [])"
      by (simp add: trace_emit)
    then show ?thesis by (rule that)
  qed
  have tr: "trace w3 = trace w @
     ([Called (GetObject source_bucket_name key) None,
       Called (PutObject ?dst ?pk buffer) None,
       Called (GeneratePresignedUrl ?dst ?pk 3600) out] @ map Printed printed)"
    using w3 by (simp add: w2 w1 emit_def)
  have np: "filter is_publish_call (map Printed printed) = []" "filter is_delete_call (map Printed printed) = []"
    by (induction printed) simp_all
  show ?thesis
    using d t np unfolding effects_since_append[OF tr] by auto
qed

theorem presign_failure_aborts_record_witness:
  "fst (try_body failing_presign_env (PStr ''raw'') (PStr ''cat.jpg'') example_world) =
     Inl (Exn ValueError ''Failed to generate a presigned URL.'') \<and>
   filter is_publish_call (trace (snd (try_body failing_presign_env (PStr ''raw'') (PStr ''cat.jpg'') example_world))) = [] \<and>
   filter is_delete_call (trace (snd (try_body failing_presign_env (PStr ''raw'') (PStr ''cat.jpg'') example_world))) = []"
proof -
  obtain w1 where g: "get_object failing_presign_env (PStr ''raw'') ''cat.jpg'' example_world = (Inr (PBytes ''abcd''), w1)"
    by (simp add: get_object_def failing_presign_fields example_world_facts)
  obtain w2 where p: "put_object failing_presign_env (getenv_value (PROCESSED_BUCKET_NAME failing_presign_env))
      (''processed-'' @ ''cat.jpg'') ''xx'' w1 = (Inr (), w2)"
    by (simp add: put_object_def failing_presign_fields)
  obtain w3 where u: "generate_presigned_url failing_presign_env (getenv_value (PROCESSED_BUCKET_NAME failing_presign_env))
      (''processed-'' @ ''cat.jpg'') None w2 = (Inr None, w3)"
    by (simp add: generate_presigned_url_def failing_presign_fields)
  have f: "falsy_url None"
    by (simp add: falsy_url_def)
  from presign_failure_aborts_record[OF g example_resize(4) p u f] show ?thesis
    by (simp add: effects_since_start example_world_facts(1))
qed

section \<open>A malformed envelope ends the batch\<close>

text \<open>
  The subscripts of lines 31 to 33 succeed exactly when the decoded body has both fields.
\<close>

lemma bind_exn_Inr: "bind_exn r f = Inr y \<longleftrightarrow> (\<exists>x. r = Inr x \<and> f x = Inr y)"
  by (cases r) (simp_all add: bind_exn_def)

lemma getitem_str_Inr: "getitem_str v k = Inr x \<longleftrightarrow> field_at v [Field k] = Some x"
  by (cases v) (auto simp: not_subscriptable_def split: option.splits)

lemma field_at_Field:
  "field_at v (Field k # path) = (case getitem_str v k of Inl e \<Rightarrow> None | Inr x \<Rightarrow> field_at x path)"
  by (cases v) (auto split: option.splits)

lemma getitem_0_then_key:
  "bind_exn (getitem_0 v) (\<lambda>x. getitem_str x k) = Inr y \<longleftrightarrow> field_at v [First, Field k] = Some y"
proof (cases v)
  case (PList xs)
  then show ?thesis
    by (cases xs) (simp_all add: bind_exn_def field_at_Field split: sum.splits)
next
  case (PStr s)
  then show ?thesis by (cases s) (simp_all add: bind_exn_def)
next
  case (PBytes b)
  then show ?thesis by (cases b) (simp_all add: bind_exn_def not_subscriptable_def)
qed (simp_all add: bind_exn_def not_subscriptable_def)

lemma field_at_First:
  "field_at v (First # Field k # path) =
     (case bind_exn (getitem_0 v) (\<lambda>x. getitem_str x k) of Inl e \<Rightarrow> None | Inr y \<Rightarrow> field_at y path)"
proof (cases v)
  case (PList xs)
  then show ?thesis
    by (cases xs) (simp_all add: bind_exn_def field_at_Field split: sum.splits)
next
  case (PStr s)
  then show ?thesis by (cases s) (simp_all add: bind_exn_def)
next
  case (PBytes b)
  then show ?thesis by (cases b) (simp_all add: bind_exn_def not_subscriptable_def)
qed (simp_all add: bind_exn_def not_subscriptable_def)

lemma envelope_Inr_iff:
  "envelope env recd = Inr (b, k) \<longleftrightarrow>
     (\<exists>m. json_loads env (body recd) = Inr m \<and>
          field_at m bucket_name_path = Some b \<and> field_at m object_key_path = Some k)"
proof (cases "json_loads env (body recd)")
  case (Inl e)
  then show ?thesis by (simp add: envelope_def bind_exn_def)
next
  case (Inr m)
  show ?thesis
    unfolding envelope_def Inr bucket_name_path_def object_key_path_def
    by (auto simp: bind_exn_def field_at_Field field_at_First split: sum.splits)
qed

lemma envelope_raises:
  assumes "(\<exists>e. json_loads env (body recd) = Inl e) \<or>
           (\<exists>m. json_loads env (body recd) = Inr m \<and>
                (field_at m bucket_name_path = None \<or> field_at m object_key_path = None))"
  shows "\<exists>e. envelope env recd = Inl e"
proof (cases "envelope env recd")
  case (Inl e)
  then show ?thesis by blast
next
  case (Inr bk)
  obtain b k where "bk = (b, k)" by (cases bk)
  with Inr have "envelope env recd = Inr (b, k)" by simp
  then obtain m where "json_loads env (body recd) = Inr m"
      "field_at m bucket_name_path = Some b" "field_at m object_key_path = Some k"
    unfolding envelope_Inr_iff by blast
  with assms show ?thesis by auto
qed

text \<open>
  C8. The body is decoded and the bucket name and key are read before the \<open>try\<close>. For a
  record whose body is not JSON, or whose decoded body lacks \<open>Records[0].s3.bucket.name\<close> or
  \<open>Records[0].s3.object.key\<close>, that raises, and the exception leaves \<open>lambda_handler\<close>
  (the error of \<open>json.loads\<close> itself when the body is not JSON): the world is the one the
  earlier records left, nothing is logged for the record, and the records after it are not
  looked at.
\<close>

theorem envelope_failure_aborts_batch:
  assumes "Records event = before @ recd # rest"
      and "for_records env before (emit (Printed (LogEvent event)) w) = (Inr (), w1)"
      and "(\<exists>e. json_loads env (body recd) = Inl e) \<or>
           (\<exists>m. json_loads env (body recd) = Inr m \<and>
                (field_at m bucket_name_path = None \<or> field_at m object_key_path = None))"
  shows "\<exists>e. envelope env recd = Inl e \<and>
             loop_body env recd w1 = (Inl e, w1) \<and>
             lambda_handler env event w = (Inl e, w1) \<and>
             (\<forall>e'. json_loads env (body recd) = Inl e' \<longrightarrow> e = e')"
proof -
  from envelope_raises[OF assms(3)] obtain e where e: "envelope env recd = Inl e"
    by blast
  have l: "loop_body env recd w1 = (Inl e, w1)"
    using e by (simp add: loop_body_def)
  then have "for_records env (recd # rest) w1 = (Inl e, w1)"
    by simp
  then have "for_records env (Records event) (emit (Printed (LogEvent event)) w) = (Inl e, w1)"
    using assms(1,2) by (simp add: for_records_append)
  then have h: "lambda_handler env event w = (Inl e, w1)"
    by (simp add: lambda_handler_def io_defs)
  have j: "\<forall>e'. json_loads env (body recd) = Inl e' \<longrightarrow> e = e'"
    using e by (auto simp: envelope_def bind_exn_def)
  from e l h j show ?thesis by blast
qed

theorem envelope_failure_aborts_batch_witness:
  "lambda_handler example_env bad_envelope_event example_world =
     (Inl (Exn (LibraryError ''JSONDecodeError'') ''Expecting value: line 1 column 1 (char 0)''),
      processed ''cat.jpg'' ''xx'' (emit (Printed (LogEvent bad_envelope_event)) example_world)) \<and>
   lambda_handler example_env test_event_batch example_world =
     (Inl (Exn KeyError (squote ''Records'')),
      processed ''cat.jpg'' ''xx'' (emit (Printed (LogEvent test_event_batch)) example_world))"
proof -
  let ?v0 = "emit (Printed (LogEvent bad_envelope_event)) example_world"
  let ?w0 = "emit (Printed (LogEvent test_event_batch)) example_world"
  have a1: "Records bad_envelope_event =
      [notify ''raw'' ''cat.jpg''] @ \<lparr>body = ''not json''\<rparr> # [notify ''raw'' ''dog.jpg'']"
    by (simp add: bad_envelope_event_def)
  have a2: "Records test_event_batch =
      [notify ''raw'' ''cat.jpg''] @ \<lparr>body = test_event_text\<rparr> # [notify ''raw'' ''dog.jpg'']"
    by (simp add: test_event_batch_def)
  have o1: "objects ?v0 (PStr ''raw'', ''cat.jpg'') = Some (PBytes ''abcd'')"
    by (simp add: objects_emit example_world_facts)
  have o2: "objects ?w0 (PStr ''raw'', ''cat.jpg'') = Some (PBytes ''abcd'')"
    by (simp add: objects_emit example_world_facts)
  have b1: "for_records example_env [notify ''raw'' ''cat.jpg''] ?v0 = (Inr (), processed ''cat.jpg'' ''xx'' ?v0)"
    using loop_body_success[OF example_envelopes(1) example_guard(1) example_run[OF o1 example_resize(1)]]
    by simp
  have b2: "for_records example_env [notify ''raw'' ''cat.jpg''] ?w0 = (Inr (), processed ''cat.jpg'' ''xx'' ?w0)"
    using loop_body_success[OF example_envelopes(1) example_guard(1) example_run[OF o2 example_resize(1)]]
    by simp
  have c1: "(\<exists>e. json_loads example_env (body \<lparr>body = ''not json''\<rparr>) = Inl e) \<or>
           (\<exists>m. json_loads example_env (body \<lparr>body = ''not json''\<rparr>) = Inr m \<and>
                (field_at m bucket_name_path = None \<or> field_at m object_key_path = None))"
    by (simp add: json_loads_examples example_loads_known)
  have c2: "(\<exists>e. json_loads example_env (body \<lparr>body = test_event_text\<rparr>) = Inl e) \<or>
           (\<exists>m. json_loads example_env (body \<lparr>body = test_event_text\<rparr>) = Inr m \<and>
                (field_at m bucket_name_path = None \<or> field_at m object_key_path = None))"
    by (simp add: json_loads_examples example_loads_known test_event_value_def bucket_name_path_def)
  have e1: "envelope example_env \<lparr>body = ''not json''\<rparr> =
      Inl (Exn (LibraryError ''JSONDecodeError'') ''Expecting value: line 1 column 1 (char 0)'')"
    by (simp add: envelope_def bind_exn_def json_loads_examples example_loads_known)
  have e2: "envelope example_env \<lparr>body = test_event_text\<rparr> = Inl (Exn KeyError (squote ''Records''))"
    by (simp add: envelope_def bind_exn_def json_loads_examples example_loads_known test_event_value_def)
  from envelope_failure_aborts_batch[OF a1 b1 c1] e1
  have r1: "lambda_handler example_env bad_envelope_event example_world =
     (Inl (Exn (LibraryError ''JSONDecodeError'') ''Expecting value: line 1 column 1 (char 0)''),
      processed ''cat.jpg'' ''xx'' ?v0)"
    by auto
  from envelope_failure_aborts_batch[OF a2 b2 c2] e2
  have r2: "lambda_handler example_env test_event_batch example_world =
     (Inl (Exn KeyError (squote ''Records'')), processed ''cat.jpg'' ''xx'' ?w0)"
    by auto
  from r1 r2 show ?thesis by blast
qed

section \<open>The presigned link issuer always returns\<close>

text \<open>
  C9. \<open>generate_presigned_url\<close> always returns: with the URL of the presign call when
  that call returns, with \<open>None\<close> when it raises. No exception reaches the caller.
\<close>

theorem generate_presigned_url_total:
  "\<exists>r w'. generate_presigned_url env bucket_name object_key expiration w = (Inr r, w') \<and>
      r = (case presign_url env w bucket_name object_key
                  (case expiration of None \<Rightarrow> 3600 | Some n \<Rightarrow> n) of
             Inl e \<Rightarrow> None | Inr url \<Rightarrow> Some url)"
  by (simp add: generate_presigned_url_def Let_def split: sum.splits)

section \<open>No rollback\<close>

text \<open>
  C10. When a record has stored its processed object and then fails, because no URL came
  back or because the publish call raised, the handler catches the failure and undoes
  nothing: the processed object is in the destination bucket under \<open>processed-\<close> followed
  by the key, the original is still in the source bucket, and no delete was called.
\<close>

theorem no_rollback_after_store:
  assumes "envelope env recd = Inr (source_bucket_name, PStr key)"
      and "getenv_value (PROCESSED_BUCKET_NAME env) \<noteq> source_bucket_name"
      and "get_object env source_bucket_name key w = (Inr (PBytes content), w1)"
      and "resize_image env content = Inr buffer"
      and "put_object env (getenv_value (PROCESSED_BUCKET_NAME env)) (''processed-'' @ key) buffer w1
             = (Inr (), w2)"
      and "generate_presigned_url env (getenv_value (PROCESSED_BUCKET_NAME env))
             (''processed-'' @ key) None w2 = (Inr presigned_url, w3)"
      and "falsy_url presigned_url \<or>
           (\<exists>e w4. publish env (getenv_value (SNS_TOPIC_ARN env))
                      (json_dumps env (sns_message (the presigned_url))) w3 = (Inl e, w4))"
  shows "\<exists>w'. loop_body env recd w = (Inr (), w') \<and>
           objects w' (getenv_value (PROCESSED_BUCKET_NAME env), ''processed-'' @ key) = Some (PBytes buffer) \<and>
           objects w' (source_bucket_name, key) = Some (PBytes content) \<and>
           filter is_delete_call (effects_since w w') = []"
proof -
  let ?dst = "getenv_value (PROCESSED_BUCKET_NAME env)"
  let ?pk = "''processed-'' @ key"
  from assms(3) have w1: "w1 = emit (Called (GetObject source_bucket_name key) None) w"
      and o: "objects w (source_bucket_name, key) = Some (PBytes content)"
    by (auto elim: get_object_cases)
  from assms(5) have w2: "w2 = emit (Called (PutObject ?dst ?pk buffer) None)
        (w1\<lparr>objects := (objects w1)((?dst, ?pk) \<mapsto> PBytes buffer)\<rparr>)"
    by (auto elim: put_object_cases)
  from assms(6) obtain es3 where w3: "trace w3 = trace w2 @ es3" "objects w3 = objects w2"
      "filter is_delete_call es3 = []"
    by (cases rule: generate_presigned_url_cases) (auto simp: emit_def)
  have o2: "objects w2 (?dst, ?pk) = Some (PBytes buffer)" "objects w2 (source_bucket_name, key) = Some (PBytes content)"
    using o assms(2) by (simp_all add: w2 w1 emit_def)
  have t2: "trace w2 = trace w @ [Called (GetObject source_bucket_name key) None, Called (PutObject ?dst ?pk buffer) None]"
    by (simp add: w2 w1 emit_def)
  obtain e wf es4 where
      t: "try_body env source_bucket_name (PStr key) w = (Inl e, wf)"
      and wf: "trace wf = trace w3 @ es4" "objects wf = objects w3" "filter is_delete_call es4 = []"
  proof (cases "falsy_url presigned_url")
    case True
    have "try_body env source_bucket_name (PStr key) w =
           (Inl (Exn ValueError ''Failed to generate a presigned URL.''), w3)"
      using assms(3,4,5,6) True by (rule try_body_no_url)
    moreover have "trace w3 = trace w3 @ []" "objects w3 = objects w3" "filter is_delete_call [] = []"
      by simp_all
    ultimately show ?thesis by (rule that)
  next
    case False
    then obtain url where u: "presigned_url = Some url" "url \<noteq> []"
      by (auto simp: falsy_url_def split: option.splits)
    with assms(7) False obtain e w4 where
      p: "publish env (getenv_value (SNS_TOPIC_ARN env)) (json_dumps env (sns_message url)) w3 = (Inl e, w4)"
      by auto
    have tb: "try_body env source_bucket_name (PStr key) w = (Inl e, w4)"
      using assms(3,4,5) assms(6)[unfolded u(1)] u(2) p by (rule try_body_publish_raises)
    from p have "w4 = emit (Called (Publish (getenv_value (SNS_TOPIC_ARN env)) (json_dumps env (sns_message url))) (Some e)) w3"
      by (auto elim: publish_cases)
    then have "trace w4 = trace w3 @ [Called (Publish (getenv_value (SNS_TOPIC_ARN env)) (json_dumps env (sns_message url))) (Some e)]"
        "objects w4 = objects w3"
        "filter is_delete_call [Called (Publish (getenv_value (SNS_TOPIC_ARN env)) (json_dumps env (sns_message url))) (Some e)] = []"
      by (simp_all add: emit_def)
    with tb show ?thesis by (rule that)
  qed
  let ?log = "if cls e = AssertionError then [Printed (LogException e)]
              else [Printed (LogErrorProcessing (PStr key) source_bucket_name e), Printed (LogTraceback e)]"
  let ?w' = "wf\<lparr>trace := trace wf @ ?log\<rparr>"
  have l: "loop_body env recd w = (Inr (), ?w')"
    using loop_body_caught[OF assms(1,2) t] by (simp add: except_clauses_result)
  have tr: "trace ?w' = trace w @ ([Called (GetObject source_bucket_name key) None,
       Called (PutObject ?dst ?pk buffer) None] @ es3 @ es4 @ ?log)"
    by (simp add: wf(1) w3(1) t2)
  have nd: "filter is_delete_call (effects_since w ?w') = []"
    unfolding effects_since_append[OF tr] using w3(3) wf(3) by simp
  have ob: "objects ?w' = objects w2"
    by (simp add: wf(2) w3(2))
  from l nd ob o2 show ?thesis
    by (intro exI[of _ ?w']) simp
qed

theorem no_rollback_after_store_witness:
  "\<exists>w'. loop_body failing_publish_env (notify ''raw'' ''cat.jpg'') example_world = (Inr (), w') \<and>
      objects w' (PStr ''resized'', ''processed-cat.jpg'') = Some (PBytes ''xx'') \<and>
      objects w' (PStr ''raw'', ''cat.jpg'') = Some (PBytes ''abcd'') \<and>
      filter is_delete_call (trace w') = []"
proof -
  obtain w1 where g: "get_object failing_publish_env (PStr ''raw'') ''cat.jpg'' example_world = (Inr (PBytes ''abcd''), w1)"
    by (simp add: get_object_def failing_publish_fields example_world_facts)
  obtain w2 where p: "put_object failing_publish_env (getenv_value (PROCESSED_BUCKET_NAME failing_publish_env))
      (''processed-'' @ ''cat.jpg'') ''xx'' w1 = (Inr (), w2)"
    by (simp add: put_object_def failing_publish_fields)
  obtain w3 where u: "generate_presigned_url failing_publish_env (getenv_value (PROCESSED_BUCKET_NAME failing_publish_env))
      (''processed-'' @ ''cat.jpg'') None w2 = (Inr (Some ''https://resized.s3.amazonaws.com/processed-cat.jpg''), w3)"
    by (simp add: generate_presigned_url_def failing_publish_fields)
  have f: "falsy_url (Some ''https://resized.s3.amazonaws.com/processed-cat.jpg'') \<or>
       (\<exists>e w4. publish failing_publish_env (getenv_value (SNS_TOPIC_ARN failing_publish_env))
          (json_dumps failing_publish_env (sns_message (the (Some ''https://resized.s3.amazonaws.com/processed-cat.jpg'')))) w3 = (Inl e, w4))"
    by (simp add: publish_def failing_publish_fields)
  from no_rollback_after_store[OF example_envelopes(6) example_guard(3) g example_resize(3) p u f]
  show ?thesis
    by (simp add: effects_since_start example_world_facts(1) getenv_value_def failing_publish_fields)
qed

end
